theory Spec2Isabelle
  imports Complex_Main "HOL-Library.AList"
begin

section \<open>Python values used by the core\<close>

text \<open>
  Clock readings (\<^verbatim>\<open>time.time()\<close>, \<^verbatim>\<open>time.perf_counter()\<close>) and metric values are
  Python floats; they are modelled as real numbers, so rounding is not part of the model.
  Counters are Python's unbounded integers. Every operation receives the clock readings
  it makes as arguments.
\<close>

text \<open>\<^verbatim>\<open>s.split(sep)\<close> for a separator of one character.\<close>

fun split_char :: "char \<Rightarrow> string \<Rightarrow> string list" where
  "split_char sep [] = [[]]"
| "split_char sep (c # cs) =
     (if c = sep then [] # split_char sep cs
      else (case split_char sep cs of
              [] \<Rightarrow> [[c]]
            | p # ps \<Rightarrow> (c # p) # ps))"

text \<open>\<^verbatim>\<open>int(x)\<close> of a float truncates towards zero; \<^verbatim>\<open>str(n)\<close> of an integer is its
  decimal numeral.\<close>

definition py_int :: "real \<Rightarrow> int" where
  "py_int x = (if 0 \<le> x then \<lfloor>x\<rfloor> else \<lceil>x\<rceil>)"

definition digit_char :: "nat \<Rightarrow> char" where
  "digit_char d = char_of (48 + d)"

fun str_nat :: "nat \<Rightarrow> string" where
  "str_nat n = (if n < 10 then [digit_char n] else str_nat (n div 10) @ [digit_char (n mod 10)])"

declare str_nat.simps [simp del]

definition str_int :: "int \<Rightarrow> string" where
  "str_int i = (if i < 0 then CHR ''-'' # str_nat (nat (- i)) else str_nat (nat i))"

text \<open>
  \<^verbatim>\<open>fnmatch.fnmatch(name, pat)\<close> of the standard library, for patterns built from
  literal characters, \<^verbatim>\<open>*\<close> (any run of characters, also the empty one) and \<^verbatim>\<open>?\<close>
  (any one character). Bracket expressions are outside this fragment; no pattern of the
  code or of the properties below has one. Case is kept as it is (POSIX
  \<^verbatim>\<open>os.path.normcase\<close>).
\<close>

fun glob :: "string \<Rightarrow> string \<Rightarrow> bool" where
  "glob [] n = (n = [])"
| "glob (p # ps) [] = (p = CHR ''*'' \<and> glob ps [])"
| "glob (p # ps) (c # cs) =
     (if p = CHR ''*'' then glob ps (c # cs) \<or> glob (p # ps) cs
      else (p = CHR ''?'' \<or> p = c) \<and> glob ps cs)"

definition fnmatch :: "string \<Rightarrow> string \<Rightarrow> bool" where
  "fnmatch name pat = glob pat name"

section \<open>Circuit breaker: data\<close>

datatype CircuitState = CLOSED | OPEN | HALF_OPEN

text \<open>\<^verbatim>\<open>CircuitState.value\<close>.\<close>

fun state_value :: "CircuitState \<Rightarrow> string" where
  "state_value CLOSED = ''closed''"
| "state_value OPEN = ''open''"
| "state_value HALF_OPEN = ''half_open''"

text \<open>The dictionary that \<^verbatim>\<open>register_circuit\<close> builds for one circuit.\<close>

record circuit =
  state :: CircuitState
  failure_count :: int
  success_count :: int
  last_failure_time :: real
  last_success_time :: real
  last_state_change :: real
  total_failures :: int
  total_successes :: int
  total_timeouts :: int
  open_count :: int
  source :: string
  target :: string
  max_failures :: int
  reset_timeout :: int
  half_open_max_calls :: int
  success_threshold :: int
  half_open_calls :: int

text \<open>The trace dictionary (\<^verbatim>\<open>metadata\<close>) of one mediated call.\<close>

record trace =
  status :: string
  timestamp :: string
  trace_source :: string
  trace_target :: string
  payload_summary :: "string option"
  security_level :: string
  completed_at :: "string option"
  error :: "string option"
  error_type :: "string option"
  error_time :: "string option"

text \<open>
  Values kept in the Store. The Store keeps the object it is given, not a copy
  (\<^verbatim>\<open>self._data[key] = value\<close>), so a circuit is stored as the address of its
  dictionary in the heap below: later changes of the dictionary are seen through the
  Store, as in the source.
\<close>

datatype sval =
    SCircuit nat
  | SLatency real
  | SError string real
  | SStateChange string string real
  | STrace trace

text \<open>Events handed to \<^verbatim>\<open>EventBus.emit\<close>, with the fields of their payload.\<close>

datatype event =
    StateChangeEv string string string real string string
  | CircuitLatencyEv string real real
  | ModuleCallEv string string "string option"
  | InteractionErrorEv string string string
  | CircuitFallbackEv string string
  | TelemetryInteractionEv string string string bool
  | TelemetryLatencyEv string string real string

fun event_name :: "event \<Rightarrow> string" where
  "event_name (StateChangeEv cid old new ts src tgt) = ''circuit:state_change''"
| "event_name (CircuitLatencyEv cid ms ts) = ''metrics:circuit_latency''"
| "event_name (ModuleCallEv tgt src p) = ''module:call:'' @ tgt"
| "event_name (InteractionErrorEv key ty msg) = ''module:interaction_error''"
| "event_name (CircuitFallbackEv src tgt) = ''module:circuit_fallback''"
| "event_name (TelemetryInteractionEv key src tgt ok) = ''telemetry:interaction''"
| "event_name (TelemetryLatencyEv src tgt ms ts) = ''telemetry:latency''"

text \<open>
  What the breaker shares with its collaborators: the heap of circuit dictionaries, the
  Store's \<^verbatim>\<open>_data\<close> in insertion order, and the events emitted so far (oldest first).
  No entry written by the core has a TTL, so expiry never removes one.
\<close>

record world =
  heap :: "nat \<Rightarrow> circuit"
  next_addr :: nat
  store_data :: "(string \<times> sval) list"
  emitted :: "event list"

record breaker =
  circuits :: "string \<rightharpoonup> nat"
  store_attached :: bool
  bus_attached :: bool
  default_max_failures :: int
  default_reset_timeout :: int
  default_half_open_max_calls :: int
  default_success_threshold :: int

section \<open>Store\<close>

definition store_set :: "string \<Rightarrow> sval \<Rightarrow> world \<Rightarrow> world" where
  "store_set k v w = w\<lparr>store_data := AList.update k v (store_data w)\<rparr>"

definition store_get :: "string \<Rightarrow> world \<Rightarrow> sval option" where
  "store_get k w = map_of (store_data w) k"

definition store_keys :: "string \<Rightarrow> world \<Rightarrow> string list" where
  "store_keys pat w = filter (\<lambda>k. fnmatch k pat) (map fst (store_data w))"

definition emit :: "event \<Rightarrow> world \<Rightarrow> world" where
  "emit e w = w\<lparr>emitted := emitted w @ [e]\<rparr>"

definition upd_circuit :: "nat \<Rightarrow> (circuit \<Rightarrow> circuit) \<Rightarrow> world \<Rightarrow> world" where
  "upd_circuit a f w = w\<lparr>heap := (heap w)(a := f (heap w a))\<rparr>"

section \<open>Circuit breaker: operations\<close>

text \<open>\<^verbatim>\<open>x or d\<close> for an optional integer argument: \<^verbatim>\<open>None\<close> and \<^verbatim>\<open>0\<close> are falsy.\<close>

definition py_or :: "int option \<Rightarrow> int \<Rightarrow> int" where
  "py_or x d = (case x of None \<Rightarrow> d | Some v \<Rightarrow> if v = 0 then d else v)"

definition set_opt :: "int option \<Rightarrow> int \<Rightarrow> int" where
  "set_opt x old = (case x of None \<Rightarrow> old | Some v \<Rightarrow> v)"

definition register_circuit ::
  "string \<Rightarrow> string \<Rightarrow> int option \<Rightarrow> int option \<Rightarrow> int option \<Rightarrow> int option \<Rightarrow> real \<Rightarrow>
   breaker \<times> world \<Rightarrow> breaker \<times> world" where
  "register_circuit src tgt mf rt hm st now bw =
     (let b = fst bw; w = snd bw; circuit_id = src @ '':'' @ tgt in
      case circuits b circuit_id of
        Some a \<Rightarrow>
          (b, upd_circuit a (\<lambda>c. c\<lparr>max_failures := set_opt mf (max_failures c),
                                    reset_timeout := set_opt rt (reset_timeout c),
                                    half_open_max_calls := set_opt hm (half_open_max_calls c),
                                    success_threshold := set_opt st (success_threshold c)\<rparr>) w)
      | None \<Rightarrow>
          (let c = \<lparr>state = CLOSED, failure_count = 0, success_count = 0,
                    last_failure_time = 0, last_success_time = 0, last_state_change = now,
                    total_failures = 0, total_successes = 0, total_timeouts = 0,
                    open_count = 0, source = src, target = tgt,
                    max_failures = py_or mf (default_max_failures b),
                    reset_timeout = py_or rt (default_reset_timeout b),
                    half_open_max_calls = py_or hm (default_half_open_max_calls b),
                    success_threshold = py_or st (default_success_threshold b),
                    half_open_calls = 0\<rparr>;
               a = next_addr w;
               w1 = w\<lparr>heap := (heap w)(a := c), next_addr := Suc a\<rparr>;
               b1 = b\<lparr>circuits := (circuits b)(circuit_id \<mapsto> a)\<rparr>;
               w2 = (if store_attached b then store_set (''circuit.'' @ circuit_id) (SCircuit a) w1
                     else w1)
           in (b1, w2)))"

definition change_state :: "breaker \<Rightarrow> string \<Rightarrow> CircuitState \<Rightarrow> real \<Rightarrow> world \<Rightarrow> world" where
  "change_state b circuit_id new_state now w =
     (case circuits b circuit_id of
        None \<Rightarrow> w
      | Some a \<Rightarrow>
          (let old_state = state (heap w a) in
           if old_state = new_state then w
           else
             (let w1 = upd_circuit a (\<lambda>c. c\<lparr>state := new_state, last_state_change := now\<rparr>) w;
                  w2 = (case new_state of
                          CLOSED \<Rightarrow> upd_circuit a (\<lambda>c. c\<lparr>failure_count := 0, success_count := 0\<rparr>) w1
                        | OPEN \<Rightarrow> upd_circuit a (\<lambda>c. c\<lparr>success_count := 0\<rparr>) w1
                        | HALF_OPEN \<Rightarrow> upd_circuit a (\<lambda>c. c\<lparr>half_open_calls := 0, success_count := 0\<rparr>) w1);
                  w3 = (if store_attached b
                        then store_set (''circuit.'' @ circuit_id @ ''.state_change.'' @ str_int (py_int now))
                               (SStateChange (state_value old_state) (state_value new_state) now)
                               (store_set (''circuit.'' @ circuit_id) (SCircuit a) w2)
                        else w2);
                  w4 = (if bus_attached b
                        then emit (StateChangeEv circuit_id (state_value old_state) (state_value new_state)
                                     now (source (heap w3 a)) (target (heap w3 a))) w3
                        else w3)
              in w4)))"

definition record_success :: "breaker \<Rightarrow> string \<Rightarrow> real \<Rightarrow> real \<Rightarrow> world \<Rightarrow> world" where
  "record_success b circuit_id duration now w =
     (case circuits b circuit_id of
        None \<Rightarrow> w
      | Some a \<Rightarrow>
          (let current_state = state (heap w a);
               w1 = upd_circuit a (\<lambda>c. c\<lparr>success_count := success_count c + 1,
                                         total_successes := total_successes c + 1,
                                         last_success_time := now,
                                         failure_count := 0\<rparr>) w;
               duration_ms = duration * 1000;
               w2 = (if store_attached b
                     then store_set (''circuit.'' @ circuit_id @ ''.latency.'' @ str_int (py_int now))
                            (SLatency duration_ms) w1
                     else w1);
               w3 = (if bus_attached b then emit (CircuitLatencyEv circuit_id duration_ms now) w2 else w2);
               w4 = (if current_state = HALF_OPEN
                        \<and> success_count (heap w3 a) \<ge> success_threshold (heap w3 a)
                     then change_state b circuit_id CLOSED now w3 else w3)
           in if store_attached b then store_set (''circuit.'' @ circuit_id) (SCircuit a) w4 else w4))"

definition record_failure :: "breaker \<Rightarrow> string \<Rightarrow> string \<Rightarrow> real \<Rightarrow> world \<Rightarrow> world" where
  "record_failure b circuit_id err now w =
     (case circuits b circuit_id of
        None \<Rightarrow> w
      | Some a \<Rightarrow>
          (let current_state = state (heap w a);
               w1 = upd_circuit a (\<lambda>c. c\<lparr>failure_count := failure_count c + 1,
                                         total_failures := total_failures c + 1,
                                         last_failure_time := now,
                                         success_count := 0\<rparr>) w;
               w2 = (if store_attached b
                     then store_set (''circuit.'' @ circuit_id @ ''.error.'' @ str_int (py_int now))
                            (SError err now) w1
                     else w1);
               w3 = (if (current_state = CLOSED \<or> current_state = HALF_OPEN)
                        \<and> failure_count (heap w2 a) \<ge> max_failures (heap w2 a)
                     then upd_circuit a (\<lambda>c. c\<lparr>open_count := open_count c + 1\<rparr>)
                            (change_state b circuit_id OPEN now w2)
                     else w2)
           in if store_attached b then store_set (''circuit.'' @ circuit_id) (SCircuit a) w3 else w3))"

definition record_timeout :: "breaker \<Rightarrow> string \<Rightarrow> real \<Rightarrow> world \<Rightarrow> world" where
  "record_timeout b circuit_id now w =
     (case circuits b circuit_id of
        None \<Rightarrow> w
      | Some a \<Rightarrow>
          record_failure b circuit_id ''Timeout'' now
            (upd_circuit a (\<lambda>c. c\<lparr>total_timeouts := total_timeouts c + 1\<rparr>) w))"

definition reset :: "breaker \<Rightarrow> string \<Rightarrow> real \<Rightarrow> world \<Rightarrow> bool \<times> world" where
  "reset b circuit_id now w =
     (case circuits b circuit_id of
        None \<Rightarrow> (False, w)
      | Some a \<Rightarrow> (True, change_state b circuit_id CLOSED now w))"

definition get_state :: "breaker \<Rightarrow> string \<Rightarrow> world \<Rightarrow> CircuitState option" where
  "get_state b circuit_id w = map_option (\<lambda>a. state (heap w a)) (circuits b circuit_id)"


definition update_configuration ::
  "breaker \<Rightarrow> string \<Rightarrow> int option \<Rightarrow> int option \<Rightarrow> int option \<Rightarrow> int option \<Rightarrow>
   world \<Rightarrow> bool \<times> world" where
  "update_configuration b circuit_id mf rt hm st w =
     (case circuits b circuit_id of
        None \<Rightarrow> (False, w)
      | Some a \<Rightarrow>
          (let w1 = upd_circuit a (\<lambda>c. c\<lparr>max_failures := set_opt mf (max_failures c),
                                         reset_timeout := set_opt rt (reset_timeout c),
                                         half_open_max_calls := set_opt hm (half_open_max_calls c),
                                         success_threshold := set_opt st (success_threshold c)\<rparr>) w;
               updated = (mf \<noteq> None \<or> rt \<noteq> None \<or> hm \<noteq> None \<or> st \<noteq> None)
           in (updated,
               if updated \<and> store_attached b
               then store_set (''circuit.'' @ circuit_id) (SCircuit a) w1 else w1)))"

text \<open>
  \<^verbatim>\<open>_load_circuits\<close>: the keys matching \<^verbatim>\<open>circuit.*.state\<close> are split at the dots and
  the record under \<^verbatim>\<open>circuit.<parts[1]>\<close> becomes the circuit of that id. A record held
  in memory has its state as the enumeration value already, so the conversion from a
  string changes nothing; an entry that is not a circuit record is skipped.
\<close>

definition load_one :: "world \<Rightarrow> string \<Rightarrow> (string \<rightharpoonup> nat) \<Rightarrow> (string \<rightharpoonup> nat)" where
  "load_one w key cs =
     (let parts = split_char CHR ''.'' key in
      if length parts \<ge> 3
      then (let circuit_id = parts ! 1 in
            case store_get (''circuit.'' @ circuit_id) w of
              Some (SCircuit a) \<Rightarrow> cs(circuit_id \<mapsto> a)
            | _ \<Rightarrow> cs)
      else cs)"

definition load_circuits :: "breaker \<Rightarrow> world \<Rightarrow> breaker" where
  "load_circuits b w =
     (if \<not> store_attached b then b
      else b\<lparr>circuits := fold (load_one w) (store_keys ''circuit.*.state'' w) (circuits b)\<rparr>)"

text \<open>The constructor, with the defaults of its signature passed by the caller.\<close>

definition new_circuit_breaker :: "bool \<Rightarrow> bool \<Rightarrow> int \<Rightarrow> int \<Rightarrow> int \<Rightarrow> int \<Rightarrow> world \<Rightarrow> breaker" where
  "new_circuit_breaker with_bus with_store mf rt hm st w =
     load_circuits \<lparr>circuits = Map.empty, store_attached = with_store, bus_attached = with_bus,
                    default_max_failures = mf, default_reset_timeout = rt,
                    default_half_open_max_calls = hm, default_success_threshold = st\<rparr> w"

definition default_breaker :: "world \<Rightarrow> breaker" where
  "default_breaker w = new_circuit_breaker True True 3 30 1 2 w"

text \<open>A world in which nothing has been stored or emitted; unused heap cells hold a
  blank record that is never read.\<close>

definition blank_circuit :: circuit where
  "blank_circuit = \<lparr>state = CLOSED, failure_count = 0, success_count = 0,
      last_failure_time = 0, last_success_time = 0, last_state_change = 0,
      total_failures = 0, total_successes = 0, total_timeouts = 0, open_count = 0,
      source = [], target = [], max_failures = 0, reset_timeout = 0,
      half_open_max_calls = 0, success_threshold = 0, half_open_calls = 0\<rparr>"

definition empty_world :: world where
  "empty_world = \<lparr>heap = (\<lambda>_. blank_circuit), next_addr = 0, store_data = [], emitted = []\<rparr>"

subsection \<open>Exceptions and the protected call\<close>

text \<open>
  The exceptions the core raises or catches. \<open>AsyncioTimeoutError\<close> is what
  \<^verbatim>\<open>asyncio.wait_for\<close> raises at its deadline, \<open>TimeoutError\<close> the builtin raised by
  \<^verbatim>\<open>_do_call\<close>; since Python 3.11 the two are one class, which the flag \<open>alias\<close> of
  the functions below records. \<open>str_exn\<close> is \<^verbatim>\<open>str(e)\<close> (for a key without quotes or
  escapes in the case of \<open>KeyError\<close>).
\<close>

datatype exn =
    TimeoutError string
  | AsyncioTimeoutError
  | PermissionError string
  | RuntimeError string
  | KeyError string
  | OtherError string

fun str_exn :: "exn \<Rightarrow> string" where
  "str_exn (TimeoutError m) = m"
| "str_exn AsyncioTimeoutError = []"
| "str_exn (PermissionError m) = m"
| "str_exn (RuntimeError m) = m"
| "str_exn (KeyError k) = [CHR 0x27] @ k @ [CHR 0x27]"
| "str_exn (OtherError m) = m"

fun is_asyncio_timeout :: "bool \<Rightarrow> exn \<Rightarrow> bool" where
  "is_asyncio_timeout alias AsyncioTimeoutError = True"
| "is_asyncio_timeout alias (TimeoutError m) = alias"
| "is_asyncio_timeout alias e = False"

fun is_builtin_timeout :: "bool \<Rightarrow> exn \<Rightarrow> bool" where
  "is_builtin_timeout alias (TimeoutError m) = True"
| "is_builtin_timeout alias AsyncioTimeoutError = alias"
| "is_builtin_timeout alias e = False"

datatype 'r outcome = Returned 'r | Raised exn

text \<open>
  What \<^verbatim>\<open>execute\<close> hands back: the value returned or the exception raised, whether
  \<^verbatim>\<open>func\<close> and \<^verbatim>\<open>fallback\<close> were invoked, and the state afterwards. The awaited call
  and the fallback are state transformers over the caller's own state \<open>'u\<close> and the
  world; a deadline of \<^verbatim>\<open>wait_for\<close> shows as the outcome \<open>Raised AsyncioTimeoutError\<close>.
\<close>

record ('r, 'u) exec_out =
  result :: "'r outcome"
  fn_invoked :: bool
  fallback_invoked :: bool
  breaker_after :: breaker
  user_after :: 'u
  world_after :: world

definition or_fallback ::
  "('u \<times> world \<Rightarrow> 'r outcome \<times> 'u \<times> world) option \<Rightarrow> exn \<Rightarrow> bool \<Rightarrow> breaker \<Rightarrow>
   'u \<times> world \<Rightarrow> ('r, 'u) exec_out" where
  "or_fallback fallback e invoked b uw =
     (case fallback of
        Some fb \<Rightarrow>
          (let out = fb uw in
           \<lparr>result = fst out, fn_invoked = invoked, fallback_invoked = True,
            breaker_after = b, user_after = fst (snd out), world_after = snd (snd out)\<rparr>)
      | None \<Rightarrow>
          \<lparr>result = Raised e, fn_invoked = invoked, fallback_invoked = False,
           breaker_after = b, user_after = fst uw, world_after = snd uw\<rparr>)"

text \<open>The two messages of \<^verbatim>\<open>RuntimeError\<close>; the accented letter is its UTF-8 bytes.\<close>

definition msg_open :: "string \<Rightarrow> string" where
  "msg_open circuit_id = ''Circuito '' @ circuit_id @ '' abierto''"

definition msg_half_open :: "string \<Rightarrow> string" where
  "msg_half_open circuit_id =
     ''Circuito '' @ circuit_id @ '' en half-open con m'' @ [CHR 0xC3, CHR 0xA1]
       @ ''ximo de llamadas alcanzado''"

text \<open>The \<^verbatim>\<open>try\<close> block of \<^verbatim>\<open>execute\<close>: the awaited call, then the recording of its
  outcome, then the fallback or the re-raise.\<close>

definition attempt ::
  "bool \<Rightarrow> breaker \<Rightarrow> string \<Rightarrow> ('u \<times> world \<Rightarrow> 'r outcome \<times> 'u \<times> world) \<Rightarrow>
   ('u \<times> world \<Rightarrow> 'r outcome \<times> 'u \<times> world) option \<Rightarrow> real \<Rightarrow> real \<Rightarrow>
   'u \<times> world \<Rightarrow> ('r, 'u) exec_out" where
  "attempt alias b circuit_id func fallback duration fin uw =
     (let out = func uw; u4 = fst (snd out); w4 = snd (snd out) in
      case fst out of
        Returned r \<Rightarrow>
          \<lparr>result = Returned r, fn_invoked = True, fallback_invoked = False,
           breaker_after = b, user_after = u4,
           world_after = record_success b circuit_id duration fin w4\<rparr>
      | Raised e \<Rightarrow>
          (if is_asyncio_timeout alias e
           then or_fallback fallback e True b (u4, record_timeout b circuit_id fin w4)
           else or_fallback fallback e True b
                  (u4, record_failure b circuit_id (str_exn e) fin w4)))"

definition execute ::
  "bool \<Rightarrow> breaker \<Rightarrow> string \<Rightarrow> ('u \<times> world \<Rightarrow> 'r outcome \<times> 'u \<times> world) \<Rightarrow>
   ('u \<times> world \<Rightarrow> 'r outcome \<times> 'u \<times> world) option \<Rightarrow> real \<Rightarrow> real \<Rightarrow> real \<Rightarrow>
   'u \<times> world \<Rightarrow> ('r, 'u) exec_out" where
  "execute alias b circuit_id func fallback now duration fin uw =
     (let u = fst uw; w = snd uw;
          bw1 = (if circuits b circuit_id = None
                 then (let parts = split_char CHR '':'' circuit_id in
                       if length parts = 2
                       then register_circuit (parts ! 0) (parts ! 1) None None None None now (b, w)
                       else register_circuit ''default'' circuit_id None None None None now (b, w))
                 else (b, w));
          b1 = fst bw1; w1 = snd bw1
      in case circuits b1 circuit_id of
           None \<Rightarrow>
             \<lparr>result = Raised (KeyError circuit_id), fn_invoked = False, fallback_invoked = False,
              breaker_after = b1, user_after = u, world_after = w1\<rparr>
         | Some a \<Rightarrow>
             (let current_state = state (heap w1 a) in
              if current_state = OPEN
                 \<and> \<not> (now - last_failure_time (heap w1 a) > real_of_int (reset_timeout (heap w1 a)))
              then or_fallback fallback (RuntimeError (msg_open circuit_id)) False b1 (u, w1)
              else
                (let w2 = (if current_state = OPEN
                           then upd_circuit a (\<lambda>c. c\<lparr>half_open_calls := 0\<rparr>)
                                  (change_state b1 circuit_id HALF_OPEN now w1)
                           else w1);
                     w3 = (if current_state = HALF_OPEN
                           then upd_circuit a (\<lambda>c. c\<lparr>half_open_calls := half_open_calls c + 1\<rparr>) w2
                           else w2)
                 in if current_state = HALF_OPEN
                       \<and> half_open_calls (heap w3 a) > half_open_max_calls (heap w3 a)
                    then or_fallback fallback (RuntimeError (msg_half_open circuit_id)) False b1 (u, w3)
                    else attempt alias b1 circuit_id func fallback duration fin (u, w3))))"

section \<open>Interaction manager\<close>

datatype PermissionLevel = NONE | READ | NORMAL | ELEVATED | ADMIN | SYSTEM

fun level_value :: "PermissionLevel \<Rightarrow> int" where
  "level_value NONE = 0"
| "level_value READ = 10"
| "level_value NORMAL = 20"
| "level_value ELEVATED = 30"
| "level_value ADMIN = 40"
| "level_value SYSTEM = 50"

fun level_name :: "PermissionLevel \<Rightarrow> string" where
  "level_name NONE = ''NONE''"
| "level_name READ = ''READ''"
| "level_name NORMAL = ''NORMAL''"
| "level_name ELEVATED = ''ELEVATED''"
| "level_name ADMIN = ''ADMIN''"
| "level_name SYSTEM = ''SYSTEM''"

record SecurityContext =
  level :: PermissionLevel
  attributes :: "(string \<times> string) list"

record edge_stats =
  requests :: int
  successes :: int
  errors :: int
  timeouts_count :: int
  fallbacks :: int
  permission_errors :: int
  security_errors :: int
  latency_sum :: real
  latency_count :: int
  latency_max :: real

record interaction_manager =
  registry :: "string \<rightharpoonup> (string \<rightharpoonup> PermissionLevel)"
  stats :: "string \<rightharpoonup> (string \<rightharpoonup> edge_stats)"
  timeouts :: "string \<rightharpoonup> real"
  telemetry_enabled :: bool
  circuit_breaker :: "breaker option"

definition zero_stats :: edge_stats where
  "zero_stats = \<lparr>requests = 0, successes = 0, errors = 0, timeouts_count = 0, fallbacks = 0,
                  permission_errors = 0, security_errors = 0,
                  latency_sum = 0, latency_count = 0, latency_max = 0\<rparr>"

text \<open>The counter named by \<^verbatim>\<open>stat_type\<close>; a name that is no key of the dictionary
  changes nothing.\<close>

definition bump_stat :: "string \<Rightarrow> edge_stats \<Rightarrow> edge_stats" where
  "bump_stat stat_type s =
     (if stat_type = ''requests'' then s\<lparr>requests := requests s + 1\<rparr>
      else if stat_type = ''successes'' then s\<lparr>successes := successes s + 1\<rparr>
      else if stat_type = ''errors'' then s\<lparr>errors := errors s + 1\<rparr>
      else if stat_type = ''timeouts'' then s\<lparr>timeouts_count := timeouts_count s + 1\<rparr>
      else if stat_type = ''fallbacks'' then s\<lparr>fallbacks := fallbacks s + 1\<rparr>
      else if stat_type = ''permission_errors'' then s\<lparr>permission_errors := permission_errors s + 1\<rparr>
      else if stat_type = ''security_errors'' then s\<lparr>security_errors := security_errors s + 1\<rparr>
      else if stat_type = ''latency_sum'' then s\<lparr>latency_sum := latency_sum s + 1\<rparr>
      else if stat_type = ''latency_count'' then s\<lparr>latency_count := latency_count s + 1\<rparr>
      else if stat_type = ''latency_max'' then s\<lparr>latency_max := latency_max s + 1\<rparr>
      else s)"

definition edge_of :: "interaction_manager \<Rightarrow> string \<Rightarrow> string \<Rightarrow> edge_stats" where
  "edge_of im src tgt =
     (case stats im src of
        None \<Rightarrow> zero_stats
      | Some m \<Rightarrow> (case m tgt of None \<Rightarrow> zero_stats | Some s \<Rightarrow> s))"

definition put_edge :: "string \<Rightarrow> string \<Rightarrow> edge_stats \<Rightarrow> interaction_manager \<Rightarrow> interaction_manager" where
  "put_edge src tgt s im =
     im\<lparr>stats := (stats im)(src \<mapsto> (case stats im src of None \<Rightarrow> Map.empty | Some m \<Rightarrow> m)(tgt \<mapsto> s))\<rparr>"

definition update_stats :: "string \<Rightarrow> string \<Rightarrow> string \<Rightarrow> interaction_manager \<Rightarrow> interaction_manager" where
  "update_stats src tgt stat_type im = put_edge src tgt (bump_stat stat_type (edge_of im src tgt)) im"

definition record_latency ::
  "string \<Rightarrow> string \<Rightarrow> real \<Rightarrow> string \<Rightarrow> interaction_manager \<times> world \<Rightarrow> interaction_manager \<times> world" where
  "record_latency src tgt duration_ms ts imw =
     (let im = fst imw; w = snd imw; s = edge_of im src tgt;
          s1 = s\<lparr>latency_sum := latency_sum s + duration_ms, latency_count := latency_count s + 1\<rparr>;
          s2 = (if duration_ms > latency_max s1 then s1\<lparr>latency_max := duration_ms\<rparr> else s1)
      in (put_edge src tgt s2 im,
          if telemetry_enabled im then emit (TelemetryLatencyEv src tgt duration_ms ts) w else w))"

definition register_interaction ::
  "string \<Rightarrow> string \<Rightarrow> PermissionLevel \<Rightarrow> real \<Rightarrow> interaction_manager \<times> world \<Rightarrow>
   interaction_manager \<times> world" where
  "register_interaction src tgt permission_level now imw =
     (let im = fst imw; w = snd imw;
          im1 = im\<lparr>registry := (registry im)(src \<mapsto>
                   (case registry im src of None \<Rightarrow> Map.empty | Some m \<Rightarrow> m)(tgt \<mapsto> permission_level))\<rparr>
      in case circuit_breaker im1 of
           None \<Rightarrow> (im1, w)
         | Some b \<Rightarrow>
             (let bw = register_circuit src tgt None None None None now (b, w)
              in (im1\<lparr>circuit_breaker := Some (fst bw)\<rparr>, snd bw)))"

definition set_timeout :: "string \<Rightarrow> string \<Rightarrow> real \<Rightarrow> interaction_manager \<Rightarrow> interaction_manager" where
  "set_timeout src tgt timeout_seconds im =
     im\<lparr>timeouts := (timeouts im)(src @ '':'' @ tgt \<mapsto> timeout_seconds)\<rparr>"

text \<open>\<^verbatim>\<open>_handle_error\<close>: the trace becomes an error trace, is stored again, and the
  error event is emitted. The updated dictionary is returned with the world.\<close>

definition handle_error ::
  "string \<Rightarrow> trace \<Rightarrow> string \<Rightarrow> string \<Rightarrow> string \<Rightarrow> world \<Rightarrow> trace \<times> world" where
  "handle_error trace_key metadata error_msg err_type ts w =
     (let md = metadata\<lparr>status := ''error'', error := Some error_msg,
                         error_type := Some err_type, error_time := Some ts\<rparr>
      in (md, emit (InteractionErrorEv trace_key err_type error_msg)
                (store_set trace_key (STrace md) w)))"

definition fallback_handler ::
  "string \<Rightarrow> string \<Rightarrow> (interaction_manager \<times> trace) \<times> world \<Rightarrow>
   'r option outcome \<times> (interaction_manager \<times> trace) \<times> world" where
  "fallback_handler src tgt uw =
     (let im = fst (fst uw); md = snd (fst uw); w = snd uw
      in (Returned None, (update_stats src tgt ''fallbacks'' im, md),
          emit (CircuitFallbackEv src tgt) w))"

text \<open>
  \<^verbatim>\<open>_do_call\<close>. The payload is given by its \<^verbatim>\<open>str()\<close> (\<open>None\<close> for a falsy payload);
  \<open>handled\<close> is the outcome of awaiting \<^verbatim>\<open>emit_async\<close> on the target's handlers under
  the timeout, and \<open>str_float\<close> the rendering of a float inside an f-string.
\<close>

definition timeout_message :: "(real \<Rightarrow> string) \<Rightarrow> real \<Rightarrow> string \<Rightarrow> string \<Rightarrow> string" where
  "timeout_message str_float timeout src tgt =
     ''Interaction timeout after '' @ str_float timeout @ ''s: '' @ src @ ''->'' @ tgt"

definition do_call ::
  "bool \<Rightarrow> (real \<Rightarrow> string) \<Rightarrow> string \<Rightarrow> string \<Rightarrow> string option \<Rightarrow> string \<Rightarrow> real \<Rightarrow>
   'r outcome \<Rightarrow> string \<Rightarrow> (interaction_manager \<times> trace) \<times> world \<Rightarrow>
   'r option outcome \<times> (interaction_manager \<times> trace) \<times> world" where
  "do_call alias str_float src tgt payload trace_key timeout handled ts uw =
     (let im = fst (fst uw); metadata = snd (fst uw); w = snd uw;
          w1 = emit (ModuleCallEv tgt src payload) w
      in case handled of
           Returned r \<Rightarrow>
             (let md = metadata\<lparr>status := ''success'', completed_at := Some ts\<rparr>;
                  w2 = store_set trace_key (STrace md) w1;
                  im1 = update_stats src tgt ''successes'' im;
                  w3 = (if telemetry_enabled im1
                        then emit (TelemetryInteractionEv trace_key src tgt True) w2 else w2)
              in (Returned (Some r), (im1, md), w3))
         | Raised e0 \<Rightarrow>
             (let e = (if is_asyncio_timeout alias e0
                       then TimeoutError (timeout_message str_float timeout src tgt) else e0)
              in if is_builtin_timeout alias e then (Raised e, (im, metadata), w1)
                 else (let mw = handle_error trace_key metadata (str_exn e) ''EXECUTION_ERROR'' ts w1
                       in (Raised e, (im, fst mw), snd mw))))"

text \<open>\<^verbatim>\<open>call\<close>. \<open>ts\<close> is the timestamp taken on entry, \<open>ts_end\<close> the one of the later
  readings; \<open>now\<close>, \<open>duration\<close> and \<open>fin\<close> are the breaker's clock readings and
  \<open>duration_ms\<close> the latency measured in the \<^verbatim>\<open>finally\<close> block.\<close>

definition call ::
  "bool \<Rightarrow> (real \<Rightarrow> string) \<Rightarrow> string \<Rightarrow> string \<Rightarrow> string option \<Rightarrow> SecurityContext option \<Rightarrow>
   string \<Rightarrow> string \<Rightarrow> 'r outcome \<Rightarrow> real \<Rightarrow> real \<Rightarrow> real \<Rightarrow> real \<Rightarrow>
   interaction_manager \<times> world \<Rightarrow> 'r option outcome \<times> interaction_manager \<times> world" where
  "call alias str_float src tgt payload security_context ts ts_end handled now duration fin
        duration_ms imw =
     (let im0 = fst imw; w0 = snd imw;
          circuit_id = src @ '':'' @ tgt;
          trace_key = ''interaction.'' @ src @ ''.'' @ tgt @ ''.'' @ ts;
          metadata = \<lparr>status = ''pending'', timestamp = ts, trace_source = src, trace_target = tgt,
                      payload_summary = map_option (take 100) payload,
                      security_level = (case security_context of
                                          Some sc \<Rightarrow> level_name (level sc) | None \<Rightarrow> ''NONE''),
                      completed_at = None, error = None, error_type = None, error_time = None\<rparr>;
          w1 = store_set trace_key (STrace metadata) w0;
          im1 = update_stats src tgt ''requests'' im0;
          timeout = (case timeouts im1 circuit_id of
                       Some t \<Rightarrow> t
                     | None \<Rightarrow> (case timeouts im1 (src @ '':*'') of Some t \<Rightarrow> t | None \<Rightarrow> 10));
          target_permission = (case registry im1 src of None \<Rightarrow> None | Some m \<Rightarrow> m tgt)
      in case target_permission of
           None \<Rightarrow>
             (let err = ''Interaction not permitted: '' @ src @ '' -> '' @ tgt;
                  mw = handle_error trace_key metadata err ''PERMISSION_ERROR'' ts_end w1
              in (Raised (PermissionError err),
                  update_stats src tgt ''permission_errors'' im1, snd mw))
         | Some perm \<Rightarrow>
             (if (case security_context of
                    Some sc \<Rightarrow> level_value perm > level_value (level sc) | None \<Rightarrow> False)
              then
                (let err = ''Security level insufficient: required '' @ level_name perm @ '', got ''
                             @ (case security_context of
                                  Some sc \<Rightarrow> level_name (level sc) | None \<Rightarrow> []);
                     mw = handle_error trace_key metadata err ''SECURITY_ERROR'' ts_end w1
                 in (Raised (PermissionError err),
                     update_stats src tgt ''security_errors'' im1, snd mw))
              else
                (let attempt =
                       (case circuit_breaker im1 of
                          Some b \<Rightarrow>
                            (let out = execute alias b circuit_id
                                         (do_call alias str_float src tgt payload trace_key timeout
                                            handled ts_end)
                                         (Some (fallback_handler src tgt))
                                         now duration fin ((im1, metadata), w1)
                             in (result out,
                                 ((fst (user_after out))\<lparr>circuit_breaker := Some (breaker_after out)\<rparr>,
                                  snd (user_after out)),
                                 world_after out))
                        | None \<Rightarrow>
                            do_call alias str_float src tgt payload trace_key timeout handled ts_end
                              ((im1, metadata), w1));
                     im2 = fst (fst (snd attempt)); md2 = snd (fst (snd attempt));
                     w2 = snd (snd attempt)
                 in case fst attempt of
                      Returned r \<Rightarrow>
                        (let imw3 = record_latency src tgt duration_ms ts_end (im2, w2)
                         in (Returned r, fst imw3, snd imw3))
                    | Raised e \<Rightarrow>
                        (let err_type = (if is_asyncio_timeout alias e then ''TIMEOUT_ERROR''
                                         else (case e of PermissionError m \<Rightarrow> ''PERMISSION_ERROR''
                                                       | _ \<Rightarrow> ''EXECUTION_ERROR''));
                             im3 = (if is_asyncio_timeout alias e
                                    then update_stats src tgt ''timeouts'' im2
                                    else (case e of PermissionError m \<Rightarrow> im2
                                                  | _ \<Rightarrow> update_stats src tgt ''errors'' im2));
                             mw = handle_error trace_key md2 (str_exn e) err_type ts_end w2;
                             imw4 = record_latency src tgt duration_ms ts_end (im3, snd mw)
                         in (Raised e, fst imw4, snd imw4)))))"


section \<open>Event bus\<close>

text \<open>
  A callback is known by a name, by whether it is a coroutine function, and by whether a
  synchronous call of it raises. What a handler does beyond that is its own business and
  is not part of the bus.
\<close>

record callback =
  cb_name :: string
  is_coroutine :: bool
  cb_raises :: bool

text \<open>
  \<^verbatim>\<open>_subscribers\<close> is a dictionary in insertion order; \<^verbatim>\<open>_patterns\<close> is a set, kept
  here as a list without duplicates (the order in which Python walks a set is not fixed).
  Every pattern of \<^verbatim>\<open>_patterns\<close> is a key of \<^verbatim>\<open>_subscribers\<close> in the source.
\<close>

record event_bus =
  subscribers :: "(string \<times> (string \<times> callback) list) list"
  patterns :: "string list"
  events_emitted :: int
  events_processed :: int
  subscribers_notified :: int

definition new_event_bus :: event_bus where
  "new_event_bus = \<lparr>subscribers = [], patterns = [], events_emitted = 0,
                     events_processed = 0, subscribers_notified = 0\<rparr>"

definition subs_of :: "event_bus \<Rightarrow> string \<Rightarrow> (string \<times> callback) list" where
  "subs_of bus key = (case map_of (subscribers bus) key of None \<Rightarrow> [] | Some l \<Rightarrow> l)"

text \<open>\<^verbatim>\<open>on\<close>; the fresh \<^verbatim>\<open>uuid4\<close> is an argument.\<close>

definition on :: "string \<Rightarrow> callback \<Rightarrow> string \<Rightarrow> event_bus \<Rightarrow> string \<times> event_bus" where
  "on event_pattern cb subscription_id bus =
     (subscription_id,
      bus\<lparr>subscribers := AList.update event_pattern
                            (subs_of bus event_pattern @ [(subscription_id, cb)]) (subscribers bus),
          patterns := (if CHR ''*'' \<in> set event_pattern
                       then List.insert event_pattern (patterns bus) else patterns bus)\<rparr>)"

fun pop_first :: "string \<Rightarrow> (string \<times> callback) list \<Rightarrow> (string \<times> callback) list" where
  "pop_first sid [] = []"
| "pop_first sid (p # ps) = (if fst p = sid then ps else p # pop_first sid ps)"

fun off_walk ::
  "string \<Rightarrow> (string \<times> (string \<times> callback) list) list \<Rightarrow>
   (string \<times> (string \<times> callback) list) option" where
  "off_walk sid [] = None"
| "off_walk sid (e # es) =
     (if sid \<in> set (map fst (snd e)) then Some (fst e, pop_first sid (snd e))
      else off_walk sid es)"

definition off :: "string \<Rightarrow> event_bus \<Rightarrow> bool \<times> event_bus" where
  "off subscription_id bus =
     (case off_walk subscription_id (subscribers bus) of
        None \<Rightarrow> (False, bus)
      | Some (event_pattern, rest) \<Rightarrow>
          (True,
           if rest = []
           then bus\<lparr>subscribers := AList.delete event_pattern (subscribers bus),
                    patterns := removeAll event_pattern (patterns bus)\<rparr>
           else bus\<lparr>subscribers := AList.update event_pattern rest (subscribers bus)\<rparr>))"

definition get_subscribers_for_event :: "event_bus \<Rightarrow> string \<Rightarrow> (string \<times> callback) list" where
  "get_subscribers_for_event bus name =
     (case map_of (subscribers bus) name of None \<Rightarrow> [] | Some l \<Rightarrow> l)
     @ concat (map (\<lambda>pattern. if fnmatch name pattern then subs_of bus pattern else [])
                   (patterns bus))"

text \<open>
  \<^verbatim>\<open>emit\<close>: every resolved callback is invoked (a coroutine function is scheduled as a
  task); a synchronous callback that raises is not counted as notified.
\<close>

record emit_out =
  notified :: int
  invoked :: "(string \<times> callback) list"
  bus_after :: event_bus

definition bus_emit :: "string \<Rightarrow> event_bus \<Rightarrow> emit_out" where
  "bus_emit name bus =
     (let direct_subscribers = get_subscribers_for_event bus name;
          n = int (length (filter (\<lambda>p. is_coroutine (snd p) \<or> \<not> cb_raises (snd p))
                             direct_subscribers))
      in \<lparr>notified = n, invoked = direct_subscribers,
          bus_after = bus\<lparr>events_emitted := events_emitted bus + 1,
                          subscribers_notified := subscribers_notified bus + n,
                          events_processed := events_processed bus + 1\<rparr>\<rparr>)"

section \<open>Telemetry collector\<close>

datatype AlertSeverity = INFO | WARNING | ERROR | CRITICAL

fun severity_value :: "AlertSeverity \<Rightarrow> string" where
  "severity_value INFO = ''info''"
| "severity_value WARNING = ''warning''"
| "severity_value ERROR = ''error''"
| "severity_value CRITICAL = ''critical''"

datatype AlertType = HIGH_CPU | HIGH_MEMORY | HIGH_LATENCY | ERROR_RATE | ANOMALY_DETECTED

fun alert_type_value :: "AlertType \<Rightarrow> string" where
  "alert_type_value HIGH_CPU = ''high_cpu''"
| "alert_type_value HIGH_MEMORY = ''high_memory''"
| "alert_type_value HIGH_LATENCY = ''high_latency''"
| "alert_type_value ERROR_RATE = ''error_rate''"
| "alert_type_value ANOMALY_DETECTED = ''anomaly_detected''"

text \<open>\<^verbatim>\<open>s.startswith(p)\<close> and \<^verbatim>\<open>s.endswith(p)\<close>.\<close>

definition startswith :: "string \<Rightarrow> string \<Rightarrow> bool" where
  "startswith s p = (take (length p) s = p)"

definition endswith :: "string \<Rightarrow> string \<Rightarrow> bool" where
  "endswith s p = (length p \<le> length s \<and> drop (length s - length p) s = p)"

text \<open>
  The alert dictionary, without its field \<^verbatim>\<open>datetime\<close> (the ISO rendering of the clock
  reading that \<open>alert_timestamp\<close> holds). A statistics dictionary is a list of named
  numbers.
\<close>

record alert =
  alert_type :: string
  severity :: string
  metric :: string
  alert_value :: real
  threshold :: real
  message :: string
  alert_timestamp :: real
  alert_stats :: "(string \<times> real) list option"

record anomaly_model =
  model_mean :: real
  model_stddev :: real
  model_threshold :: real
  last_update :: real

record anomaly =
  an_metric :: string
  an_value :: real
  an_score :: real
  an_timestamp :: real
  an_threshold :: real
  an_model_mean :: real
  an_model_stddev :: real

datatype tval = AlertV alert | AnomalyV anomaly

text \<open>The collector with what it has written to the Store and emitted on the bus.\<close>

record collector =
  metrics_buffer :: "(string \<times> real list) list"
  last_values :: "string \<rightharpoonup> real"
  alert_thresholds :: "(string \<times> (string \<times> real) list) list"
  active_alerts :: "(string \<times> alert) list"
  anomalies :: "anomaly list"
  anomaly_models :: "string \<rightharpoonup> anomaly_model"
  stored :: "(string \<times> tval) list"
  sent :: "(string \<times> tval) list"

definition default_thresholds :: "(string \<times> (string \<times> real) list) list" where
  "default_thresholds =
     [(''cpu.percent'', [(''warning'', 70), (''critical'', 90)]),
      (''memory.percent'', [(''warning'', 80), (''critical'', 95)]),
      (''latency.interaction'', [(''warning'', 1000), (''critical'', 5000)]),
      (''error.rate'', [(''warning'', 5 / 100), (''critical'', 2 / 10)])]"

text \<open>The constructor with \<^verbatim>\<open>_load_config\<close>: configured thresholds first, then the
  defaults of the metrics that have none.\<close>

definition load_config ::
  "(string \<times> (string \<times> real) list) list \<Rightarrow> (string \<times> (string \<times> real) list) list" where
  "load_config thresholds_config =
     fold (\<lambda>(m, v) acc. if map_of acc m = None then acc @ [(m, v)] else acc) default_thresholds
       (fold (\<lambda>(m, v) acc. AList.update m v acc) thresholds_config [])"

definition new_collector :: "(string \<times> (string \<times> real) list) list \<Rightarrow> collector" where
  "new_collector thresholds_config =
     \<lparr>metrics_buffer = [], last_values = Map.empty,
      alert_thresholds = load_config thresholds_config,
      active_alerts = [], anomalies = [], anomaly_models = Map.empty,
      stored = [], sent = []\<rparr>"

definition buffer_of :: "collector \<Rightarrow> string \<Rightarrow> real list" where
  "buffer_of s name = (case map_of (metrics_buffer s) name of None \<Rightarrow> [] | Some vs \<Rightarrow> vs)"

definition record_metric :: "string \<Rightarrow> real \<Rightarrow> collector \<Rightarrow> collector" where
  "record_metric name v s =
     s\<lparr>metrics_buffer := AList.update name (buffer_of s name @ [v]) (metrics_buffer s),
       last_values := (last_values s)(name \<mapsto> v)\<rparr>"

definition clean_old_data :: "real \<Rightarrow> collector \<Rightarrow> collector" where
  "clean_old_data now s =
     s\<lparr>metrics_buffer :=
          map (\<lambda>(name, vs). (name, if length vs > 1000 then drop (length vs - 1000) vs else vs))
              (metrics_buffer s),
       anomalies := (if length (anomalies s) > 100
                     then drop (length (anomalies s) - 100) (anomalies s) else anomalies s),
       active_alerts := filter (\<lambda>(key, a). \<not> (now - alert_timestamp a > 86400)) (active_alerts s)\<rparr>"

definition match_metric_pattern :: "string \<Rightarrow> string \<Rightarrow> bool" where
  "match_metric_pattern metric_name pattern =
     (if pattern = metric_name then True
      else if endswith pattern ''*'' \<and> startswith metric_name (butlast pattern) then True
      else if startswith pattern ''*'' \<and> endswith metric_name (tl pattern) then True
      else if CHR ''*'' \<in> set pattern
              \<and> (let parts = split_char CHR ''*'' pattern
                 in length parts = 2 \<and> startswith metric_name (parts ! 0)
                    \<and> endswith metric_name (parts ! 1)) then True
      else False)"

text \<open>\<^verbatim>\<open>_format_alert_message\<close>; \<open>fmt d x\<close> is the rendering \<^verbatim>\<open>f"{x:.df}"\<close> of a
  float with \<open>d\<close> decimals. The accented letter of the anomaly message is its UTF-8
  bytes.\<close>

definition upper_char :: "char \<Rightarrow> char" where
  "upper_char c =
     (let n = (of_char c :: nat) in if 97 \<le> n \<and> n \<le> 122 then char_of (n - 32) else c)"

definition format_alert_message ::
  "(nat \<Rightarrow> real \<Rightarrow> string) \<Rightarrow> AlertType \<Rightarrow> string \<Rightarrow> real \<Rightarrow> real \<Rightarrow> AlertSeverity \<Rightarrow> string" where
  "format_alert_message fmt ty metric_name v thr sev =
     (let level_text = map upper_char (severity_value sev);
          value_text = (if startswith metric_name ''latency'' then fmt 2 v @ ''ms''
                        else if endswith metric_name ''percent'' then fmt 1 v @ ''%''
                        else if startswith metric_name ''error.rate'' then fmt 2 (v * 100) @ ''%''
                        else fmt 2 v);
          threshold_text = (if startswith metric_name ''latency'' then fmt 2 thr @ ''ms''
                            else if endswith metric_name ''percent'' then fmt 1 thr @ ''%''
                            else if startswith metric_name ''error.rate'' then fmt 2 (thr * 100) @ ''%''
                            else fmt 2 thr);
          tail = '' - '' @ value_text @ '' (umbral: '' @ threshold_text @ '')''
      in case ty of
           HIGH_CPU \<Rightarrow> level_text @ '': Alto uso de CPU'' @ tail
         | HIGH_MEMORY \<Rightarrow> level_text @ '': Alto uso de memoria'' @ tail
         | HIGH_LATENCY \<Rightarrow> level_text @ '': Latencia elevada en '' @ metric_name @ tail
         | ERROR_RATE \<Rightarrow> level_text @ '': Tasa de errores elevada'' @ tail
         | ANOMALY_DETECTED \<Rightarrow>
             level_text @ '': Anomal'' @ [CHR 0xC3, CHR 0xAD] @ ''a detectada en '' @ metric_name @ tail)"

definition alert_type_for :: "string \<Rightarrow> AlertType" where
  "alert_type_for metric_name =
     (if startswith metric_name ''cpu'' then HIGH_CPU
      else if startswith metric_name ''memory'' then HIGH_MEMORY
      else if startswith metric_name ''latency'' then HIGH_LATENCY
      else if startswith metric_name ''error'' then ERROR_RATE
      else ANOMALY_DETECTED)"

text \<open>\<^verbatim>\<open>_emit_alert\<close>: the two early returns are the two suppression tests of the
  source, in its order.\<close>

definition emit_alert ::
  "(nat \<Rightarrow> real \<Rightarrow> string) \<Rightarrow> string \<Rightarrow> real \<Rightarrow> real \<Rightarrow> AlertSeverity \<Rightarrow> (string \<times> real) list \<Rightarrow>
   real \<Rightarrow> collector \<Rightarrow> collector" where
  "emit_alert fmt metric_name v thr sev stats_arg now s =
     (let ty = alert_type_for metric_name;
          alert_key = alert_type_value ty @ '':'' @ metric_name;
          suppressed =
            (case map_of (active_alerts s) alert_key of
               None \<Rightarrow> False
             | Some last_alert \<Rightarrow>
                 (let time_since_last = now - alert_timestamp last_alert in
                  if time_since_last < 300 \<and> severity last_alert = severity_value sev then True
                  else if severity last_alert = severity_value sev \<and> time_since_last < 300
                          \<and> v < alert_value last_alert * (3 / 2) then True
                  else False))
      in if suppressed then s
         else
           (let alert_data = \<lparr>alert_type = alert_type_value ty, severity = severity_value sev,
                              metric = metric_name, alert_value = v, threshold = thr,
                              message = format_alert_message fmt ty metric_name v thr sev,
                              alert_timestamp = now,
                              alert_stats = (if stats_arg = [] then None else Some stats_arg)\<rparr>;
                alert_id = str_int (py_int now) @ ''-'' @ alert_key
            in s\<lparr>active_alerts := AList.update alert_key alert_data (active_alerts s),
                 stored := AList.update (''alerts.'' @ alert_id) (AlertV alert_data) (stored s),
                 sent := sent s @ [(''system:alert'', AlertV alert_data)]\<rparr>))"

definition check_one_threshold ::
  "(nat \<Rightarrow> real \<Rightarrow> string) \<Rightarrow> string \<Rightarrow> (string \<times> real) list \<Rightarrow> real \<Rightarrow>
   string \<times> (string \<times> real) list \<Rightarrow> collector \<Rightarrow> collector" where
  "check_one_threshold fmt metric_name stats_arg now entry s =
     (let threshold_pattern = fst entry; thresholds = snd entry in
      if match_metric_pattern metric_name threshold_pattern
      then (let check_value =
                  (case map_of stats_arg ''mean'' of
                     Some m \<Rightarrow> Some m
                   | None \<Rightarrow>
                       (if map_of stats_arg ''p95'' \<noteq> None \<and> startswith threshold_pattern ''latency.''
                        then map_of stats_arg ''p95''
                        else if map_of stats_arg ''max'' \<noteq> None \<and> endswith threshold_pattern ''.max''
                        then map_of stats_arg ''max''
                        else None))
            in case check_value of
                 None \<Rightarrow> s
               | Some cv \<Rightarrow>
                   (case map_of thresholds ''critical'' of
                      Some crit \<Rightarrow>
                        if cv \<ge> crit then emit_alert fmt metric_name cv crit CRITICAL stats_arg now s
                        else (case map_of thresholds ''warning'' of
                                Some warn \<Rightarrow>
                                  if cv \<ge> warn
                                  then emit_alert fmt metric_name cv warn WARNING stats_arg now s
                                  else s
                              | None \<Rightarrow> s)
                    | None \<Rightarrow>
                        (case map_of thresholds ''warning'' of
                           Some warn \<Rightarrow>
                             if cv \<ge> warn
                             then emit_alert fmt metric_name cv warn WARNING stats_arg now s
                             else s
                         | None \<Rightarrow> s)))
      else s)"

definition check_thresholds ::
  "(nat \<Rightarrow> real \<Rightarrow> string) \<Rightarrow> string \<Rightarrow> (string \<times> real) list \<Rightarrow> real \<Rightarrow> collector \<Rightarrow> collector" where
  "check_thresholds fmt metric_name stats_arg now s =
     fold (check_one_threshold fmt metric_name stats_arg now) (alert_thresholds s) s"

text \<open>\<^verbatim>\<open>statistics.mean\<close> and \<^verbatim>\<open>statistics.stdev\<close> (the sample standard deviation),
  used where the list has at least thirty values.\<close>

definition mean :: "real list \<Rightarrow> real" where
  "mean xs = sum_list xs / real (length xs)"

definition stdev :: "real list \<Rightarrow> real" where
  "stdev xs = sqrt (sum_list (map (\<lambda>x. (x - mean xs)\<^sup>2) xs) / real (length xs - 1))"

definition initialize_anomaly_model :: "real list \<Rightarrow> real \<Rightarrow> anomaly_model" where
  "initialize_anomaly_model vs now =
     (let m = mean vs;
          sd = (if length vs > 1 then stdev vs else (1 / 10) * m)
      in \<lparr>model_mean = m, model_stddev = sd, model_threshold = 3 * sd, last_update = now\<rparr>)"

definition update_anomaly_model :: "anomaly_model \<Rightarrow> real list \<Rightarrow> real \<Rightarrow> anomaly_model" where
  "update_anomaly_model model new_values now =
     (let new_mean = mean new_values;
          new_stddev = (if length new_values > 1 then stdev new_values else (1 / 10) * new_mean);
          updated_mean = model_mean model * (7 / 10) + new_mean * (3 / 10);
          updated_stddev = model_stddev model * (7 / 10) + new_stddev * (3 / 10)
      in \<lparr>model_mean = updated_mean, model_stddev = updated_stddev,
          model_threshold = 3 * updated_stddev, last_update = now\<rparr>)"

definition check_anomaly :: "real \<Rightarrow> anomaly_model \<Rightarrow> bool \<times> real" where
  "check_anomaly v model =
     (let z_score = (if model_stddev model = 0 then 0
                     else \<bar>v - model_mean model\<bar> / model_stddev model)
      in (z_score > 3, z_score))"

definition flag_value ::
  "(nat \<Rightarrow> real \<Rightarrow> string) \<Rightarrow> string \<Rightarrow> anomaly_model \<Rightarrow> real \<Rightarrow> real \<Rightarrow> collector \<Rightarrow> collector" where
  "flag_value fmt metric_name model now v s =
     (let chk = check_anomaly v model in
      if fst chk
      then (let score = snd chk;
                an = \<lparr>an_metric = metric_name, an_value = v, an_score = score, an_timestamp = now,
                      an_threshold = model_threshold model, an_model_mean = model_mean model,
                      an_model_stddev = model_stddev model\<rparr>;
                s1 = s\<lparr>anomalies := anomalies s @ [an],
                       stored := AList.update (''anomaly.'' @ metric_name @ ''.'' @ str_int (py_int now))
                                   (AnomalyV an) (stored s),
                       sent := sent s @ [(''telemetry:anomaly_detected'', AnomalyV an)]\<rparr>
            in if score > model_threshold model * 2
               then emit_alert fmt metric_name v (model_threshold model) ERROR
                      [(''anomaly_score'', score)] now s1
               else emit_alert fmt metric_name v (model_threshold model) WARNING
                      [(''anomaly_score'', score)] now s1)
      else s)"

definition detect_metric ::
  "(nat \<Rightarrow> real \<Rightarrow> string) \<Rightarrow> real \<Rightarrow> string \<times> real list \<Rightarrow> collector \<Rightarrow> collector" where
  "detect_metric fmt now entry s =
     (let metric_name = fst entry; vs = snd entry in
      if length vs < 30 then s
      else
        (let model = (case anomaly_models s metric_name of
                        None \<Rightarrow> initialize_anomaly_model vs now
                      | Some m \<Rightarrow> if now - last_update m > 600
                                  then update_anomaly_model m vs now else m);
             s1 = s\<lparr>anomaly_models := (anomaly_models s)(metric_name \<mapsto> model)\<rparr>;
             recent_values = drop (length vs - 10) vs
         in fold (flag_value fmt metric_name model now) recent_values s1))"

definition detect_anomalies :: "(nat \<Rightarrow> real \<Rightarrow> string) \<Rightarrow> real \<Rightarrow> collector \<Rightarrow> collector" where
  "detect_anomalies fmt now s = fold (detect_metric fmt now) (metrics_buffer s) s"

section \<open>Effects on one circuit, and sequences of operations\<close>

text \<open>What \<^verbatim>\<open>_change_state\<close> and \<^verbatim>\<open>_record_failure\<close> do to the dictionary of the
  circuit they are called on.\<close>

definition changed :: "CircuitState \<Rightarrow> real \<Rightarrow> circuit \<Rightarrow> circuit" where
  "changed new_state now c =
     (if state c = new_state then c
      else (case new_state of
              CLOSED \<Rightarrow> c\<lparr>state := CLOSED, last_state_change := now,
                           failure_count := 0, success_count := 0\<rparr>
            | OPEN \<Rightarrow> c\<lparr>state := OPEN, last_state_change := now, success_count := 0\<rparr>
            | HALF_OPEN \<Rightarrow> c\<lparr>state := HALF_OPEN, last_state_change := now,
                              half_open_calls := 0, success_count := 0\<rparr>))"

definition failed :: "real \<Rightarrow> circuit \<Rightarrow> circuit" where
  "failed now c =
     (let c1 = c\<lparr>failure_count := failure_count c + 1, total_failures := total_failures c + 1,
                 last_failure_time := now, success_count := 0\<rparr>
      in if (state c = CLOSED \<or> state c = HALF_OPEN) \<and> max_failures c \<le> failure_count c + 1
         then (changed OPEN now c1)\<lparr>open_count := open_count c + 1\<rparr> else c1)"

definition succeeded :: "real \<Rightarrow> circuit \<Rightarrow> circuit" where
  "succeeded now c =
     (let c1 = c\<lparr>success_count := success_count c + 1, total_successes := total_successes c + 1,
                 last_success_time := now, failure_count := 0\<rparr>
      in if state c = HALF_OPEN \<and> success_threshold c \<le> success_count c + 1
         then changed CLOSED now c1 else c1)"

text \<open>A recorded failure is a call of \<^verbatim>\<open>_record_failure\<close> or of \<^verbatim>\<open>_record_timeout\<close>.\<close>

datatype recorded = RecFailure string real | RecTimeout real

fun record_one :: "breaker \<Rightarrow> string \<Rightarrow> recorded \<Rightarrow> world \<Rightarrow> world" where
  "record_one b cid (RecFailure err now) w = record_failure b cid err now w"
| "record_one b cid (RecTimeout now) w = record_timeout b cid now w"

fun record_all :: "breaker \<Rightarrow> string \<Rightarrow> recorded list \<Rightarrow> world \<Rightarrow> world" where
  "record_all b cid [] w = w"
| "record_all b cid (r # rs) w = record_all b cid rs (record_one b cid r w)"

fun fail_one :: "recorded \<Rightarrow> circuit \<Rightarrow> circuit" where
  "fail_one (RecFailure err now) c = failed now c"
| "fail_one (RecTimeout now) c = failed now (c\<lparr>total_timeouts := total_timeouts c + 1\<rparr>)"

text \<open>
  The operations of the breaker as data, to speak about every sequence of them. In
  \<open>OpExecute\<close> the protected function and the fallback are given by their outcome; they
  do not themselves touch the breaker.
\<close>

datatype cb_op =
    OpRegister string string "int option" "int option" "int option" "int option" real
  | OpExecute string "unit outcome" "unit outcome option" real real real
  | OpRecordSuccess string real real
  | OpRecordFailure string string real
  | OpRecordTimeout string real
  | OpChangeState string CircuitState real
  | OpReset string real
  | OpUpdateConfiguration string "int option" "int option" "int option" "int option"

fun apply_op :: "bool \<Rightarrow> cb_op \<Rightarrow> breaker \<times> world \<Rightarrow> breaker \<times> world" where
  "apply_op alias (OpRegister src tgt mf rt hm st now) bw = register_circuit src tgt mf rt hm st now bw"
| "apply_op alias (OpExecute cid res fb now duration fin) bw =
     (let out = execute alias (fst bw) cid (\<lambda>uw. (res, uw))
                  (map_option (\<lambda>r uw. (r, uw)) fb) now duration fin ((), snd bw)
      in (breaker_after out, world_after out))"
| "apply_op alias (OpRecordSuccess cid duration now) bw =
     (fst bw, record_success (fst bw) cid duration now (snd bw))"
| "apply_op alias (OpRecordFailure cid err now) bw =
     (fst bw, record_failure (fst bw) cid err now (snd bw))"
| "apply_op alias (OpRecordTimeout cid now) bw = (fst bw, record_timeout (fst bw) cid now (snd bw))"
| "apply_op alias (OpChangeState cid st now) bw = (fst bw, change_state (fst bw) cid st now (snd bw))"
| "apply_op alias (OpReset cid now) bw = (fst bw, snd (reset (fst bw) cid now (snd bw)))"
| "apply_op alias (OpUpdateConfiguration cid mf rt hm st) bw =
     (fst bw, snd (update_configuration (fst bw) cid mf rt hm st (snd bw)))"

text \<open>The two counters of a circuit are never both positive.\<close>

definition counters_exclusive :: "circuit \<Rightarrow> bool" where
  "counters_exclusive c =
     ((failure_count c > 0 \<longrightarrow> success_count c = 0) \<and> (success_count c > 0 \<longrightarrow> failure_count c = 0))"

definition all_exclusive :: "world \<Rightarrow> bool" where
  "all_exclusive w = (\<forall>a. counters_exclusive (heap w a))"

text \<open>A breaker with the constructor's defaults over an empty Store, after
  \<^verbatim>\<open>register_circuit("a", "b")\<close> at time 0; and the same after three failures recorded
  at times 1, 2 and 3.\<close>

definition ab_registered :: "breaker \<times> world" where
  "ab_registered =
     register_circuit ''a'' ''b'' None None None None 0 (default_breaker empty_world, empty_world)"

definition ab_opened :: world where
  "ab_opened =
     record_all (fst ab_registered) ''a:b''
       [RecFailure ''boom'' 1, RecFailure ''boom'' 2, RecFailure ''boom'' 3] (snd ab_registered)"

section \<open>Basic facts\<close>

lemma heap_store_set [simp]: "heap (store_set k v w) = heap w"
  by (simp add: store_set_def)

lemma heap_emit [simp]: "heap (emit e w) = heap w"
  by (simp add: emit_def)

lemma heap_upd_circuit [simp]: "heap (upd_circuit a f w) = (heap w)(a := f (heap w a))"
  by (simp add: upd_circuit_def)

lemma split_char_absent: "sep \<notin> set s \<Longrightarrow> split_char sep s = [s]"
  by (induction s) auto

lemma empty_world_fields:
  "heap empty_world = (\<lambda>_. blank_circuit)" "next_addr empty_world = 0"
  "store_data empty_world = []" "emitted empty_world = []"
  by (simp_all add: empty_world_def)

lemma default_breaker_empty:
  "default_breaker empty_world =
     \<lparr>circuits = Map.empty, store_attached = True, bus_attached = True,
      default_max_failures = 3, default_reset_timeout = 30,
      default_half_open_max_calls = 1, default_success_threshold = 2\<rparr>"
  by (simp add: default_breaker_def new_circuit_breaker_def load_circuits_def store_keys_def
        empty_world_def)

lemma ab_unfold:
  "ab_registered =
     (\<lparr>circuits = [''a:b'' \<mapsto> 0], store_attached = True, bus_attached = True,
       default_max_failures = 3, default_reset_timeout = 30,
       default_half_open_max_calls = 1, default_success_threshold = 2\<rparr>,
      store_set ''circuit.a:b'' (SCircuit 0)
        (empty_world\<lparr>heap := (\<lambda>_. blank_circuit)(0 :=
            \<lparr>state = CLOSED, failure_count = 0, success_count = 0,
             last_failure_time = 0, last_success_time = 0, last_state_change = 0,
             total_failures = 0, total_successes = 0, total_timeouts = 0, open_count = 0,
             source = ''a'', target = ''b'', max_failures = 3, reset_timeout = 30,
             half_open_max_calls = 1, success_threshold = 2, half_open_calls = 0\<rparr>),
          next_addr := Suc 0\<rparr>))"
  by (simp add: ab_registered_def register_circuit_def default_breaker_empty Let_def
        empty_world_fields py_or_def)

lemma ab_breaker:
  "fst ab_registered =
     \<lparr>circuits = [''a:b'' \<mapsto> 0], store_attached = True, bus_attached = True,
      default_max_failures = 3, default_reset_timeout = 30,
      default_half_open_max_calls = 1, default_success_threshold = 2\<rparr>"
  by (simp add: ab_unfold)

lemma ab_circuits: "circuits (fst ab_registered) ''a:b'' = Some 0"
  by (simp add: ab_breaker)

lemma ab_heap:
  "heap (snd ab_registered) 0 =
     \<lparr>state = CLOSED, failure_count = 0, success_count = 0,
      last_failure_time = 0, last_success_time = 0, last_state_change = 0,
      total_failures = 0, total_successes = 0, total_timeouts = 0, open_count = 0,
      source = ''a'', target = ''b'', max_failures = 3, reset_timeout = 30,
      half_open_max_calls = 1, success_threshold = 2, half_open_calls = 0\<rparr>"
  by (simp add: ab_unfold)

lemma ab_store: "store_data (snd ab_registered) = [(''circuit.a:b'', SCircuit 0)]"
  by (simp add: ab_unfold store_set_def empty_world_fields)

lemma ab_emitted: "emitted (snd ab_registered) = []"
  by (simp add: ab_unfold store_set_def empty_world_fields)

section \<open>The heap after each recording operation\<close>

lemma heap_change_state:
  "circuits b cid = Some a \<Longrightarrow>
   heap (change_state b cid s now w) = (heap w)(a := changed s now (heap w a))"
  by (cases s) (auto simp: change_state_def changed_def Let_def)

lemma change_state_unregistered:
  "circuits b cid = None \<Longrightarrow> change_state b cid s now w = w"
  by (simp add: change_state_def)

lemma heap_record_failure:
  assumes reg: "circuits b cid = Some a"
  shows "heap (record_failure b cid err now w) = (heap w)(a := failed now (heap w a))"
proof (cases "state (heap w a) = OPEN")
  case True
  then show ?thesis
    by (simp add: record_failure_def failed_def Let_def reg)
next
  case not_open: False
  show ?thesis
  proof (cases "max_failures (heap w a) \<le> failure_count (heap w a) + 1")
    case True
    with not_open show ?thesis
      by (cases "state (heap w a)")
         (simp_all add: record_failure_def failed_def Let_def heap_change_state reg changed_def)
  next
    case False
    with not_open show ?thesis
      by (simp add: record_failure_def failed_def Let_def reg)
  qed
qed

lemma heap_record_timeout:
  "circuits b cid = Some a \<Longrightarrow>
   heap (record_timeout b cid now w) =
     (heap w)(a := failed now ((heap w a)\<lparr>total_timeouts := total_timeouts (heap w a) + 1\<rparr>))"
  by (simp add: record_timeout_def heap_record_failure)

lemma heap_record_success:
  assumes reg: "circuits b cid = Some a"
  shows "heap (record_success b cid d now w) = (heap w)(a := succeeded now (heap w a))"
proof (cases "state (heap w a) = HALF_OPEN")
  case half: True
  show ?thesis
  proof (cases "success_threshold (heap w a) \<le> success_count (heap w a) + 1")
    case True
    with half show ?thesis
      by (simp add: record_success_def succeeded_def Let_def heap_change_state reg changed_def)
  next
    case False
    with half show ?thesis
      by (simp add: record_success_def succeeded_def Let_def reg)
  qed
next
  case False
  then show ?thesis
    by (simp add: record_success_def succeeded_def Let_def reg)
qed

lemma heap_record_one:
  "circuits b cid = Some a \<Longrightarrow> heap (record_one b cid r w) a = fail_one r (heap w a)"
  by (cases r) (simp_all add: heap_record_failure heap_record_timeout)

lemma heap_record_all:
  "circuits b cid = Some a \<Longrightarrow> heap (record_all b cid rs w) a = fold fail_one rs (heap w a)"
  by (induction rs arbitrary: w) (simp_all add: heap_record_one)

section \<open>From CLOSED to OPEN\<close>

lemma fail_one_open:
  "state c = OPEN \<Longrightarrow>
   state (fail_one r c) = OPEN \<and> open_count (fail_one r c) = open_count c"
  by (cases r) (simp_all add: failed_def)

lemma fold_fail_open:
  "state c = OPEN \<Longrightarrow>
   state (fold fail_one rs c) = OPEN \<and> open_count (fold fail_one rs c) = open_count c"
  by (induction rs arbitrary: c) (simp_all add: fail_one_open)

lemma fail_one_closed_below:
  "state c = CLOSED \<Longrightarrow> failure_count c + 1 < max_failures c \<Longrightarrow>
   state (fail_one r c) = CLOSED \<and> open_count (fail_one r c) = open_count c
   \<and> failure_count (fail_one r c) = failure_count c + 1
   \<and> max_failures (fail_one r c) = max_failures c"
  by (cases r) (simp_all add: failed_def)

lemma fail_one_closed_reach:
  "state c = CLOSED \<Longrightarrow> max_failures c \<le> failure_count c + 1 \<Longrightarrow>
   state (fail_one r c) = OPEN \<and> open_count (fail_one r c) = open_count c + 1"
  by (cases r) (simp_all add: failed_def changed_def)

lemma fold_fail_closed_below:
  "state c = CLOSED \<Longrightarrow> failure_count c + int (length rs) < max_failures c \<Longrightarrow>
   state (fold fail_one rs c) = CLOSED \<and> open_count (fold fail_one rs c) = open_count c"
proof (induction rs arbitrary: c)
  case Nil
  then show ?case by simp
next
  case (Cons r rs)
  from Cons.prems have below: "failure_count c + 1 < max_failures c" by simp
  note step = fail_one_closed_below [OF Cons.prems(1) below, of r]
  from step Cons.prems(2)
  have "failure_count (fail_one r c) + int (length rs) < max_failures (fail_one r c)" by simp
  with step Cons.IH [of "fail_one r c"] show ?case by simp
qed

lemma fold_fail_closed_reach:
  "state c = CLOSED \<Longrightarrow> rs \<noteq> [] \<Longrightarrow> max_failures c \<le> failure_count c + int (length rs) \<Longrightarrow>
   state (fold fail_one rs c) = OPEN \<and> open_count (fold fail_one rs c) = open_count c + 1"
proof (induction rs arbitrary: c)
  case Nil
  then show ?case by simp
next
  case (Cons r rs)
  show ?case
  proof (cases "max_failures c \<le> failure_count c + 1")
    case True
    from fail_one_closed_reach [OF Cons.prems(1) True, of r]
      fold_fail_open [of "fail_one r c" rs]
    show ?thesis by simp
  next
    case False
    then have below: "failure_count c + 1 < max_failures c" by simp
    note step = fail_one_closed_below [OF Cons.prems(1) below, of r]
    from below Cons.prems(3) have ne: "rs \<noteq> []" by auto
    from step Cons.prems(3)
    have "max_failures (fail_one r c) \<le> failure_count (fail_one r c) + int (length rs)" by simp
    with step ne Cons.IH [of "fail_one r c"] show ?thesis by simp
  qed
qed

text \<open>
  C1. A registered circuit is CLOSED, its failure counter is not negative and its
  \<open>max_failures\<close> is at least one. After \<open>max_failures\<close> recorded failures in a row
  (each a failure or a timeout, no success between them) the circuit is OPEN and its
  \<open>open_count\<close> is one more than before. When the failure counter started at zero, the
  circuit is still CLOSED, with \<open>open_count\<close> unchanged, after any smaller number of
  these failures.
\<close>

theorem closed_opens_after_max_failures:
  assumes reg: "circuits b cid = Some a"
    and closed: "state (heap w a) = CLOSED"
    and nonneg: "0 \<le> failure_count (heap w a)"
    and pos: "1 \<le> max_failures (heap w a)"
    and len: "int (length rs) = max_failures (heap w a)"
  shows "state (heap (record_all b cid rs w) a) = OPEN
       \<and> open_count (heap (record_all b cid rs w) a) = open_count (heap w a) + 1
       \<and> (failure_count (heap w a) = 0 \<longrightarrow>
            (\<forall>k < length rs.
               state (heap (record_all b cid (take k rs) w) a) = CLOSED
             \<and> open_count (heap (record_all b cid (take k rs) w) a) = open_count (heap w a)))"
proof -
  from pos len have ne: "rs \<noteq> []" by auto
  from nonneg len have reach: "max_failures (heap w a) \<le> failure_count (heap w a) + int (length rs)"
    by simp
  have fin: "state (fold fail_one rs (heap w a)) = OPEN
           \<and> open_count (fold fail_one rs (heap w a)) = open_count (heap w a) + 1"
    by (rule fold_fail_closed_reach [OF closed ne reach])
  have early: "state (fold fail_one (take k rs) (heap w a)) = CLOSED
             \<and> open_count (fold fail_one (take k rs) (heap w a)) = open_count (heap w a)"
    if z: "failure_count (heap w a) = 0" and k: "k < length rs" for k
  proof -
    from z k len have "failure_count (heap w a) + int (length (take k rs)) < max_failures (heap w a)"
      by simp
    from fold_fail_closed_below [OF closed this] show ?thesis .
  qed
  from fin early show ?thesis by (simp add: heap_record_all [OF reg])
qed

theorem closed_opens_after_max_failures_witness:
  "circuits (fst ab_registered) ''a:b'' = Some 0
   \<and> state (heap (snd ab_registered) 0) = CLOSED
   \<and> max_failures (heap (snd ab_registered) 0) = 3
   \<and> state (heap (record_all (fst ab_registered) ''a:b''
               [RecFailure ''boom'' 1, RecTimeout 2, RecFailure ''boom'' 3]
               (snd ab_registered)) 0) = OPEN
   \<and> open_count (heap (record_all (fst ab_registered) ''a:b''
               [RecFailure ''boom'' 1, RecTimeout 2, RecFailure ''boom'' 3]
               (snd ab_registered)) 0) = 1"
  using closed_opens_after_max_failures [of "fst ab_registered" "''a:b''" 0 "snd ab_registered"
      "[RecFailure ''boom'' 1, RecTimeout 2, RecFailure ''boom'' 3]"]
  by (simp add: ab_circuits ab_heap)

section \<open>The two counters exclude each other\<close>

lemma excl_changed: "counters_exclusive c \<Longrightarrow> counters_exclusive (changed s now c)"
  by (cases s) (auto simp: counters_exclusive_def changed_def)

lemma excl_failed: "counters_exclusive (failed now c)"
  by (auto simp: counters_exclusive_def failed_def Let_def changed_def)

lemma excl_succeeded: "counters_exclusive (succeeded now c)"
  by (auto simp: counters_exclusive_def succeeded_def Let_def changed_def)

lemma all_excl_upd:
  "all_exclusive w \<Longrightarrow> heap w' = (heap w)(a := c) \<Longrightarrow> counters_exclusive c \<Longrightarrow> all_exclusive w'"
  by (simp add: all_exclusive_def)

lemma all_exclusiveD: "all_exclusive w \<Longrightarrow> counters_exclusive (heap w a)"
  by (simp add: all_exclusive_def)

lemma all_excl_change_state:
  assumes g: "all_exclusive w"
  shows "all_exclusive (change_state b cid s now w)"
proof (cases "circuits b cid")
  case None
  with g show ?thesis by (simp add: change_state_unregistered)
next
  case (Some a)
  from g have "counters_exclusive (changed s now (heap w a))"
    by (simp add: all_exclusiveD excl_changed)
  with g heap_change_state [OF Some] show ?thesis by (rule all_excl_upd)
qed

lemma all_excl_record_failure:
  assumes g: "all_exclusive w"
  shows "all_exclusive (record_failure b cid err now w)"
proof (cases "circuits b cid")
  case None
  with g show ?thesis by (simp add: record_failure_def)
next
  case (Some a)
  from g heap_record_failure [OF Some] excl_failed show ?thesis by (rule all_excl_upd)
qed

lemma all_excl_record_success:
  assumes g: "all_exclusive w"
  shows "all_exclusive (record_success b cid d now w)"
proof (cases "circuits b cid")
  case None
  with g show ?thesis by (simp add: record_success_def)
next
  case (Some a)
  from g heap_record_success [OF Some] excl_succeeded show ?thesis by (rule all_excl_upd)
qed

lemma all_excl_record_timeout:
  assumes g: "all_exclusive w"
  shows "all_exclusive (record_timeout b cid now w)"
proof (cases "circuits b cid")
  case None
  with g show ?thesis by (simp add: record_timeout_def)
next
  case (Some a)
  from g heap_record_timeout [OF Some] excl_failed show ?thesis by (rule all_excl_upd)
qed

lemma all_excl_upd_circuit:
  "all_exclusive w \<Longrightarrow> (\<And>c. counters_exclusive c \<Longrightarrow> counters_exclusive (f c)) \<Longrightarrow>
   all_exclusive (upd_circuit a f w)"
  by (simp add: all_exclusive_def)

lemma all_excl_register:
  "all_exclusive w \<Longrightarrow> all_exclusive (snd (register_circuit s t mf rt hm st now (b, w)))"
  by (auto simp: register_circuit_def Let_def all_exclusive_def counters_exclusive_def
           split: option.splits)

lemma all_excl_update_configuration:
  "all_exclusive w \<Longrightarrow> all_exclusive (snd (update_configuration b cid mf rt hm st w))"
  by (auto simp: update_configuration_def Let_def all_exclusive_def counters_exclusive_def
           split: option.splits)

lemma all_excl_reset:
  "all_exclusive w \<Longrightarrow> all_exclusive (snd (reset b cid now w))"
  by (auto simp: reset_def all_excl_change_state split: option.splits)

lemma all_excl_or_fallback:
  "all_exclusive (snd uw) \<Longrightarrow>
   (\<And>fb uw. fallback = Some fb \<Longrightarrow> all_exclusive (snd uw) \<Longrightarrow> all_exclusive (snd (snd (fb uw)))) \<Longrightarrow>
   all_exclusive (world_after (or_fallback fallback e called b uw))"
  by (auto simp: or_fallback_def Let_def split: option.splits)

lemma all_excl_attempt:
  assumes g: "all_exclusive (snd uw)"
    and fn: "\<And>uw. all_exclusive (snd uw) \<Longrightarrow> all_exclusive (snd (snd (func uw)))"
    and fb: "\<And>fb uw. fallback = Some fb \<Longrightarrow> all_exclusive (snd uw) \<Longrightarrow>
               all_exclusive (snd (snd (fb uw)))"
  shows "all_exclusive (world_after (attempt alias b cid func fallback d fin uw))"
proof -
  from g have after: "all_exclusive (snd (snd (func uw)))" by (rule fn)
  show ?thesis
  proof (cases "fst (func uw)")
    case (Returned r)
    with after show ?thesis
      by (simp add: attempt_def Let_def all_excl_record_success)
  next
    case (Raised e)
    have "all_exclusive (world_after (or_fallback fallback e True b
            (fst (snd (func uw)), record_timeout b cid fin (snd (snd (func uw))))))"
      by (rule all_excl_or_fallback) (simp_all add: after all_excl_record_timeout fb)
    moreover
    have "all_exclusive (world_after (or_fallback fallback e True b
            (fst (snd (func uw)), record_failure b cid (str_exn e) fin (snd (snd (func uw))))))"
      by (rule all_excl_or_fallback) (simp_all add: after all_excl_record_failure fb)
    ultimately show ?thesis using Raised by (simp add: attempt_def Let_def)
  qed
qed

lemma all_excl_execute:
  assumes g: "all_exclusive (snd uw)"
    and fn: "\<And>uw. all_exclusive (snd uw) \<Longrightarrow> all_exclusive (snd (snd (func uw)))"
    and fb: "\<And>fb uw. fallback = Some fb \<Longrightarrow> all_exclusive (snd uw) \<Longrightarrow>
               all_exclusive (snd (snd (fb uw)))"
  shows "all_exclusive (world_after (execute alias b cid func fallback now d fin uw))"
proof -
  define bw1 where "bw1 = (if circuits b cid = None
                 then (let parts = split_char CHR '':'' cid in
                       if length parts = 2
                       then register_circuit (parts ! 0) (parts ! 1) None None None None now (b, snd uw)
                       else register_circuit ''default'' cid None None None None now (b, snd uw))
                 else (b, snd uw))"
  have g1: "all_exclusive (snd bw1)"
    using g by (auto simp: bw1_def Let_def all_excl_register)
  show ?thesis
  proof (cases "circuits (fst bw1) cid")
    case None
    then show ?thesis using g1 by (simp add: execute_def Let_def bw1_def [symmetric])
  next
    case (Some a)
    have g2: "all_exclusive (upd_circuit a (\<lambda>c. c\<lparr>half_open_calls := 0\<rparr>)
                                  (change_state (fst bw1) cid HALF_OPEN now (snd bw1)))"
      by (rule all_excl_upd_circuit [OF all_excl_change_state [OF g1]])
         (simp add: counters_exclusive_def)
    have g3: "all_exclusive (upd_circuit a (\<lambda>c. c\<lparr>half_open_calls := half_open_calls c + 1\<rparr>) (snd bw1))"
      by (rule all_excl_upd_circuit [OF g1]) (simp add: counters_exclusive_def)
    have g4: "all_exclusive (upd_circuit a (\<lambda>c. c\<lparr>half_open_calls := half_open_calls c + 1\<rparr>)
                (upd_circuit a (\<lambda>c. c\<lparr>half_open_calls := 0\<rparr>)
                                  (change_state (fst bw1) cid HALF_OPEN now (snd bw1))))"
      by (rule all_excl_upd_circuit [OF g2]) (simp add: counters_exclusive_def)
    have fbk: "all_exclusive (world_after (or_fallback fallback e called b' (u, w')))"
      if "all_exclusive w'" for e called b' u w'
      by (rule all_excl_or_fallback) (simp_all add: that fb)
    have att: "all_exclusive (world_after (attempt alias b' cid func fallback d fin (u, w')))"
      if "all_exclusive w'" for b' u w'
      by (rule all_excl_attempt) (simp_all add: that fn fb)
    show ?thesis
      using Some g1 g2 g3 g4
      by (simp add: execute_def Let_def bw1_def [symmetric] fbk att del: heap_upd_circuit)
  qed
qed

lemma all_excl_apply_op:
  assumes g: "all_exclusive (snd bw)"
  shows "all_exclusive (snd (apply_op alias op bw))"
proof (cases op)
  case (OpRegister s t mf rt hm st now)
  from g all_excl_register [of "snd bw" s t mf rt hm st now "fst bw"]
  show ?thesis by (simp add: OpRegister)
next
  case (OpExecute cid res fb now d fin)
  have "all_exclusive (world_after (execute alias (fst bw) cid (\<lambda>uw. (res, uw))
           (map_option (\<lambda>r uw. (r, uw)) fb) now d fin ((), snd bw)))"
    by (rule all_excl_execute) (auto simp: g)
  then show ?thesis by (simp add: OpExecute Let_def)
next
  case (OpRecordSuccess cid d now)
  with g show ?thesis by (simp add: all_excl_record_success)
next
  case (OpRecordFailure cid err now)
  with g show ?thesis by (simp add: all_excl_record_failure)
next
  case (OpRecordTimeout cid now)
  with g show ?thesis by (simp add: all_excl_record_timeout)
next
  case (OpChangeState cid st now)
  with g show ?thesis by (simp add: all_excl_change_state)
next
  case (OpReset cid now)
  with g show ?thesis by (simp add: all_excl_reset)
next
  case (OpUpdateConfiguration cid mf rt hm st)
  with g show ?thesis by (simp add: all_excl_update_configuration)
qed

lemma all_excl_fold:
  "all_exclusive (snd bw) \<Longrightarrow> all_exclusive (snd (fold (apply_op alias) ops bw))"
  by (induction ops arbitrary: bw) (simp_all add: all_excl_apply_op)

lemma all_excl_empty: "all_exclusive empty_world"
  by (simp add: all_exclusive_def empty_world_fields counters_exclusive_def blank_circuit_def)

text \<open>
  C3. Start from a world in which the two counters of every circuit dictionary exclude
  each other (the empty world is one). After any sequence of completed operations of
  the breaker (registration, execute, recording a success, a failure or a timeout, a
  state change, a reset, a change of configuration) every registered circuit has
  \<open>failure_count > 0 \<longrightarrow> success_count = 0\<close> and \<open>success_count > 0 \<longrightarrow> failure_count = 0\<close>.
\<close>

theorem counters_stay_exclusive:
  assumes good: "all_exclusive w"
    and reg: "circuits (fst (fold (apply_op alias) ops (b, w))) cid = Some a"
  shows "counters_exclusive (heap (snd (fold (apply_op alias) ops (b, w))) a)"
proof (rule all_exclusiveD)
  from good have "all_exclusive (snd (b, w))" by simp
  then show "all_exclusive (snd (fold (apply_op alias) ops (b, w)))"
    by (rule all_excl_fold)
qed

theorem counters_stay_exclusive_witness:
  "all_exclusive empty_world
   \<and> circuits (fst (fold (apply_op True)
         [OpRegister ''a'' ''b'' None None None None 0,
          OpRecordFailure ''a:b'' ''boom'' 1,
          OpRecordSuccess ''a:b'' (1 / 10) 2]
         (default_breaker empty_world, empty_world))) ''a:b'' = Some 0
   \<and> counters_exclusive (heap (snd (fold (apply_op True)
         [OpRegister ''a'' ''b'' None None None None 0,
          OpRecordFailure ''a:b'' ''boom'' 1,
          OpRecordSuccess ''a:b'' (1 / 10) 2]
         (default_breaker empty_world, empty_world))) 0)"
  using counters_stay_exclusive [of empty_world True
      "[OpRegister ''a'' ''b'' None None None None 0,
        OpRecordFailure ''a:b'' ''boom'' 1,
        OpRecordSuccess ''a:b'' (1 / 10) 2]"
      "default_breaker empty_world" "''a:b''" 0]
  by (simp add: all_excl_empty ab_registered_def [symmetric] ab_circuits)

section \<open>The branches of execute\<close>

lemma or_fallback_fields:
  "fn_invoked (or_fallback fallback e called b uw) = called"
  "breaker_after (or_fallback fallback e called b uw) = b"
  "fallback_invoked (or_fallback fallback e called b uw) = (fallback \<noteq> None)"
  by (simp_all add: or_fallback_def Let_def split: option.splits)

lemma or_fallback_none:
  "or_fallback None e called b uw =
     \<lparr>result = Raised e, fn_invoked = called, fallback_invoked = False,
      breaker_after = b, user_after = fst uw, world_after = snd uw\<rparr>"
  by (simp add: or_fallback_def)

lemma attempt_returned:
  "func uw = (Returned r, u', w') \<Longrightarrow>
   attempt alias b cid func fallback d fin uw =
     \<lparr>result = Returned r, fn_invoked = True, fallback_invoked = False,
      breaker_after = b, user_after = u', world_after = record_success b cid d fin w'\<rparr>"
  by (simp add: attempt_def)

lemma attempt_invokes: "fn_invoked (attempt alias b cid func fallback d fin uw)"
  by (cases "fst (func uw)") (simp_all add: attempt_def Let_def or_fallback_fields)

lemma execute_open_wait:
  assumes "circuits b cid = Some a" and "state (heap w a) = OPEN"
    and "\<not> now - last_failure_time (heap w a) > real_of_int (reset_timeout (heap w a))"
  shows "execute alias b cid func fallback now d fin (u, w) =
           or_fallback fallback (RuntimeError (msg_open cid)) False b (u, w)"
  using assms by (simp add: execute_def Let_def)

lemma execute_open_elapsed:
  assumes "circuits b cid = Some a" and "state (heap w a) = OPEN"
    and "now - last_failure_time (heap w a) > real_of_int (reset_timeout (heap w a))"
  shows "execute alias b cid func fallback now d fin (u, w) =
           attempt alias b cid func fallback d fin
             (u, upd_circuit a (\<lambda>c. c\<lparr>half_open_calls := 0\<rparr>)
                   (change_state b cid HALF_OPEN now w))"
  using assms by (simp add: execute_def Let_def)

lemma execute_half_open:
  assumes "circuits b cid = Some a" and "state (heap w a) = HALF_OPEN"
  shows "execute alias b cid func fallback now d fin (u, w) =
           (if half_open_calls (heap w a) + 1 > half_open_max_calls (heap w a)
            then or_fallback fallback (RuntimeError (msg_half_open cid)) False b
                   (u, upd_circuit a (\<lambda>c. c\<lparr>half_open_calls := half_open_calls c + 1\<rparr>) w)
            else attempt alias b cid func fallback d fin
                   (u, upd_circuit a (\<lambda>c. c\<lparr>half_open_calls := half_open_calls c + 1\<rparr>) w))"
  using assms by (simp add: execute_def Let_def)

lemma execute_closed:
  assumes "circuits b cid = Some a" and "state (heap w a) = CLOSED"
  shows "execute alias b cid func fallback now d fin (u, w) =
           attempt alias b cid func fallback d fin (u, w)"
  using assms by (simp add: execute_def Let_def)

lemma ab_opened_heap:
  "heap ab_opened 0 =
     \<lparr>state = OPEN, failure_count = 3, success_count = 0,
      last_failure_time = 3, last_success_time = 0, last_state_change = 3,
      total_failures = 3, total_successes = 0, total_timeouts = 0, open_count = 1,
      source = ''a'', target = ''b'', max_failures = 3, reset_timeout = 30,
      half_open_max_calls = 1, success_threshold = 2, half_open_calls = 0\<rparr>"
  by (simp add: ab_opened_def heap_record_failure [OF ab_circuits] ab_heap failed_def changed_def)

text \<open>
  C2, at a concrete input. The circuit \<open>a:b\<close> of the example is OPEN with its last failure
  at time 3, a reset timeout of 30 and \<open>half_open_max_calls = 1\<close>. A call at time 100
  moves it to HALF_OPEN and invokes the protected function, and afterwards
  \<open>half_open_calls\<close> is 0, not 1: the call that makes the transition is not counted.
  A second call at time 102 finds the circuit HALF_OPEN, counts itself
  (\<open>half_open_calls = 1\<close>) and invokes the function again.
\<close>

theorem transition_call_not_counted:
  "state (heap ab_opened 0) = OPEN
   \<and> half_open_max_calls (heap ab_opened 0) = 1
   \<and> (let out = execute True (fst ab_registered) ''a:b'' (\<lambda>uw. (Returned (7::nat), uw))
                   (Some (\<lambda>uw. (Returned 0, uw))) 100 (1 / 100) 101 ((), ab_opened);
           out2 = execute True (fst ab_registered) ''a:b'' (\<lambda>uw. (Returned (7::nat), uw))
                   (Some (\<lambda>uw. (Returned 0, uw))) 102 (1 / 100) 103 ((), world_after out)
       in result out = Returned 7 \<and> fn_invoked out \<and> \<not> fallback_invoked out
          \<and> state (heap (world_after out) 0) = HALF_OPEN
          \<and> half_open_calls (heap (world_after out) 0) = 0
          \<and> result out2 = Returned 7 \<and> fn_invoked out2 \<and> \<not> fallback_invoked out2
          \<and> half_open_calls (heap (world_after out2) 0) = 1)"
proof -
  let ?b = "fst ab_registered"
  let ?f = "\<lambda>uw :: unit \<times> world. (Returned (7::nat), uw)"
  let ?fb = "Some (\<lambda>uw :: unit \<times> world. (Returned (0::nat), uw))"
  let ?w3 = "upd_circuit 0 (\<lambda>c. c\<lparr>half_open_calls := 0\<rparr>) (change_state ?b ''a:b'' HALF_OPEN 100 ab_opened)"
  let ?out = "execute True ?b ''a:b'' ?f ?fb 100 (1 / 100) 101 ((), ab_opened)"
  have out: "?out = \<lparr>result = Returned 7, fn_invoked = True, fallback_invoked = False,
      breaker_after = ?b, user_after = (), world_after = record_success ?b ''a:b'' (1 / 100) 101 ?w3\<rparr>"
    by (subst execute_open_elapsed [OF ab_circuits])
       (simp_all add: ab_opened_heap attempt_returned)
  have h1: "heap (world_after ?out) 0 =
     \<lparr>state = HALF_OPEN, failure_count = 0, success_count = 1,
      last_failure_time = 3, last_success_time = 101, last_state_change = 100,
      total_failures = 3, total_successes = 1, total_timeouts = 0, open_count = 1,
      source = ''a'', target = ''b'', max_failures = 3, reset_timeout = 30,
      half_open_max_calls = 1, success_threshold = 2, half_open_calls = 0\<rparr>"
    by (simp add: out heap_record_success [OF ab_circuits] heap_change_state [OF ab_circuits]
          ab_opened_heap succeeded_def changed_def)
  let ?w5 = "upd_circuit 0 (\<lambda>c. c\<lparr>half_open_calls := half_open_calls c + 1\<rparr>) (world_after ?out)"
  let ?out2 = "execute True ?b ''a:b'' ?f ?fb 102 (1 / 100) 103 ((), world_after ?out)"
  have out2: "?out2 = \<lparr>result = Returned 7, fn_invoked = True, fallback_invoked = False,
      breaker_after = ?b, user_after = (), world_after = record_success ?b ''a:b'' (1 / 100) 103 ?w5\<rparr>"
    by (subst execute_half_open [OF ab_circuits]) (simp_all add: h1 attempt_returned)
  have h2: "half_open_calls (heap (world_after ?out2) 0) = 1"
    by (simp add: out2 heap_record_success [OF ab_circuits] h1 succeeded_def changed_def)
  from out h1 out2 h2 show ?thesis
    by (simp add: Let_def ab_opened_heap)
qed

section \<open>An identifier without a colon\<close>

lemma register_keeps_other:
  "cid \<noteq> s @ '':'' @ t \<Longrightarrow>
   circuits (fst (register_circuit s t mf rt hm st now (b, w))) cid = circuits b cid"
  by (simp add: register_circuit_def Let_def split: option.splits)

lemma register_has_circuit:
  "circuits (fst (register_circuit s t mf rt hm st now (b, w))) (s @ '':'' @ t) \<noteq> None"
  by (simp add: register_circuit_def Let_def split: option.splits)

lemma register_emits_nothing:
  "emitted (snd (register_circuit s t mf rt hm st now (b, w))) = emitted w"
  by (simp add: register_circuit_def Let_def store_set_def upd_circuit_def split: option.splits)

lemma register_defaults_heap:
  "x \<noteq> next_addr w \<Longrightarrow>
   heap (snd (register_circuit s t None None None None now (b, w))) x = heap w x"
  by (simp add: register_circuit_def Let_def set_opt_def split: option.splits)

text \<open>
  C10. For an identifier without a colon that is not registered, \<^verbatim>\<open>execute\<close> raises
  \<^verbatim>\<open>KeyError\<close> for that identifier. Neither the function nor the fallback is invoked,
  and nothing is recorded: all that happened is the registration of the circuit
  \<open>default:<id>\<close>, so the breaker has that key and still not the identifier itself, no
  event is emitted, and every dictionary that existed before is unchanged.
\<close>

theorem execute_plain_id_raises_key_error:
  assumes plain: "CHR '':'' \<notin> set cid" and unreg: "circuits b cid = None"
  shows "let out = execute alias b cid func fallback now d fin (u, w);
             reg = register_circuit ''default'' cid None None None None now (b, w)
         in result out = Raised (KeyError cid)
            \<and> \<not> fn_invoked out \<and> \<not> fallback_invoked out \<and> user_after out = u
            \<and> breaker_after out = fst reg \<and> world_after out = snd reg
            \<and> circuits (breaker_after out) (''default:'' @ cid) \<noteq> None
            \<and> circuits (breaker_after out) cid = None
            \<and> emitted (world_after out) = emitted w
            \<and> (\<forall>x. x \<noteq> next_addr w \<longrightarrow> heap (world_after out) x = heap w x)"
proof -
  let ?reg = "register_circuit ''default'' cid None None None None now (b, w)"
  have differs: "cid \<noteq> ''default'' @ '':'' @ cid"
  proof
    assume "cid = ''default'' @ '':'' @ cid"
    then have "length cid = length (''default'' @ '':'' @ cid)" by (rule arg_cong)
    then show False by simp
  qed
  from unreg have still: "circuits (fst ?reg) cid = None"
    by (simp add: register_keeps_other [OF differs])
  have parts: "split_char CHR '':'' cid = [cid]"
    using plain by (rule split_char_absent)
  have out: "execute alias b cid func fallback now d fin (u, w) =
      \<lparr>result = Raised (KeyError cid), fn_invoked = False, fallback_invoked = False,
       breaker_after = fst ?reg, user_after = u, world_after = snd ?reg\<rparr>"
    by (simp add: execute_def Let_def unreg parts still)
  have present: "circuits (fst ?reg) (''default:'' @ cid) \<noteq> None"
    using register_has_circuit [of "''default''" cid None None None None now b w] by simp
  from present show ?thesis
    by (simp add: Let_def out still register_emits_nothing register_defaults_heap)
qed

theorem execute_plain_id_raises_key_error_witness:
  "CHR '':'' \<notin> set ''svc''
   \<and> circuits (fst ab_registered) ''svc'' = None
   \<and> result (execute True (fst ab_registered) ''svc'' (\<lambda>uw. (Returned (7::nat), uw))
               (Some (\<lambda>uw. (Returned 0, uw))) 5 1 6 ((), snd ab_registered))
       = Raised (KeyError ''svc'')
   \<and> \<not> fn_invoked (execute True (fst ab_registered) ''svc'' (\<lambda>uw. (Returned (7::nat), uw))
               (Some (\<lambda>uw. (Returned 0, uw))) 5 1 6 ((), snd ab_registered))
   \<and> \<not> fallback_invoked (execute True (fst ab_registered) ''svc'' (\<lambda>uw. (Returned (7::nat), uw))
               (Some (\<lambda>uw. (Returned 0, uw))) 5 1 6 ((), snd ab_registered))"
  using execute_plain_id_raises_key_error [of "''svc''" "fst ab_registered" True
      "\<lambda>uw. (Returned (7::nat), uw)" "Some (\<lambda>uw. (Returned 0, uw))" 5 1 6 "()" "snd ab_registered"]
  by (simp add: Let_def ab_breaker)

section \<open>Reloading from the Store\<close>

text \<open>
  C6, at a concrete input. After \<^verbatim>\<open>register_circuit("a", "b")\<close> the Store holds the
  circuit under the key \<open>circuit.a:b\<close>. No key of the Store matches the pattern
  \<open>circuit.*.state\<close> that \<^verbatim>\<open>_load_circuits\<close> asks for, so a new breaker constructed
  over this Store has no circuit \<open>a:b\<close>.
\<close>

theorem persisted_circuit_not_reloaded:
  "store_get ''circuit.a:b'' (snd ab_registered) = Some (SCircuit 0)
   \<and> state (heap (snd ab_registered) 0) = CLOSED
   \<and> store_keys ''circuit.*.state'' (snd ab_registered) = []
   \<and> circuits (default_breaker (snd ab_registered)) ''a:b'' = None
   \<and> get_state (default_breaker (snd ab_registered)) ''a:b'' (snd ab_registered) = None"
proof -
  have keys: "store_keys ''circuit.*.state'' (snd ab_registered) = []"
    by (simp add: store_keys_def ab_store fnmatch_def)
  then have none: "circuits (default_breaker (snd ab_registered)) ''a:b'' = None"
    by (simp add: default_breaker_def new_circuit_breaker_def load_circuits_def)
  from keys none show ?thesis
    by (simp add: store_get_def ab_store ab_heap get_state_def)
qed

section \<open>Event bus: wildcard subscriptions\<close>

lemma subs_of_on:
  "subs_of (snd (on pat cb sid bus)) key =
     (if key = pat then subs_of bus pat @ [(sid, cb)] else subs_of bus key)"
  by (simp add: on_def subs_of_def update_conv)

lemma patterns_on:
  "CHR ''*'' \<in> set pat \<Longrightarrow> patterns (snd (on pat cb sid bus)) = List.insert pat (patterns bus)"
  by (simp add: on_def)

lemma concat_map_insert_empty:
  "f x = [] \<Longrightarrow> concat (map f (List.insert x xs)) = concat (map f xs)"
  by (induction xs) (auto simp: List.insert_def)

lemma resolved_alt:
  "get_subscribers_for_event bus name =
     subs_of bus name
     @ concat (map (\<lambda>pattern. if fnmatch name pattern then subs_of bus pattern else [])
                   (patterns bus))"
  by (simp add: get_subscribers_for_event_def subs_of_def)

lemma on_wildcard_resolved:
  assumes star: "CHR ''*'' \<in> set pat" and hit: "fnmatch name pat"
  shows "(sid, cb) \<in> set (get_subscribers_for_event (snd (on pat cb sid bus)) name)"
proof -
  have "pat \<in> set (patterns (snd (on pat cb sid bus)))"
    by (simp add: patterns_on [OF star])
  moreover have "(sid, cb) \<in> set (subs_of (snd (on pat cb sid bus)) pat)"
    by (simp add: subs_of_on)
  ultimately show ?thesis using hit by (auto simp: resolved_alt)
qed

lemma on_wildcard_unresolved:
  assumes star: "CHR ''*'' \<in> set pat" and miss: "\<not> fnmatch name pat" and ne: "name \<noteq> pat"
  shows "get_subscribers_for_event (snd (on pat cb sid bus)) name
         = get_subscribers_for_event bus name"
proof -
  have same: "(\<lambda>p. if fnmatch name p then subs_of (snd (on pat cb sid bus)) p else [])
            = (\<lambda>p. if fnmatch name p then subs_of bus p else [])"
    using miss by (auto simp: subs_of_on fun_eq_iff)
  show ?thesis
    using miss ne
    by (simp add: resolved_alt subs_of_on patterns_on [OF star] same concat_map_insert_empty)
qed

text \<open>
  C9. After a subscription with the pattern \<open>sys:*\<close> is registered on any bus, the
  subscription is among the callbacks invoked by emitting \<open>sys:started\<close> and by emitting
  \<open>sys:stopped\<close>, and emitting \<open>syslog\<close> invokes exactly the callbacks it invoked before
  the registration; on a new bus it invokes none.
\<close>

theorem sys_wildcard_subscription:
  "(sid, cb) \<in> set (invoked (bus_emit ''sys:started'' (snd (on ''sys:*'' cb sid bus))))
   \<and> (sid, cb) \<in> set (invoked (bus_emit ''sys:stopped'' (snd (on ''sys:*'' cb sid bus))))
   \<and> invoked (bus_emit ''syslog'' (snd (on ''sys:*'' cb sid bus)))
       = invoked (bus_emit ''syslog'' bus)
   \<and> invoked (bus_emit ''syslog'' (snd (on ''sys:*'' cb sid new_event_bus))) = []"
proof -
  have star: "CHR ''*'' \<in> set ''sys:*''" by simp
  have started: "fnmatch ''sys:started'' ''sys:*''" by (simp add: fnmatch_def)
  have stopped: "fnmatch ''sys:stopped'' ''sys:*''" by (simp add: fnmatch_def)
  have syslog: "\<not> fnmatch ''syslog'' ''sys:*''" by (simp add: fnmatch_def)
  have differ: "''syslog'' \<noteq> ''sys:*''" by simp
  have fresh: "get_subscribers_for_event new_event_bus ''syslog'' = []"
    by (simp add: get_subscribers_for_event_def new_event_bus_def)
  show ?thesis
    using on_wildcard_resolved [OF star started, of sid cb bus]
      on_wildcard_resolved [OF star stopped, of sid cb bus]
      on_wildcard_unresolved [OF star syslog differ, of cb sid bus]
      on_wildcard_unresolved [OF star syslog differ, of cb sid new_event_bus] fresh
    by (simp add: bus_emit_def Let_def)
qed

theorem sys_wildcard_subscription_witness:
  "invoked (bus_emit ''sys:started''
      (snd (on ''sys:*'' \<lparr>cb_name = ''h'', is_coroutine = False, cb_raises = False\<rparr> ''id-1''
              new_event_bus)))
     = [(''id-1'', \<lparr>cb_name = ''h'', is_coroutine = False, cb_raises = False\<rparr>)]
   \<and> notified (bus_emit ''sys:started''
      (snd (on ''sys:*'' \<lparr>cb_name = ''h'', is_coroutine = False, cb_raises = False\<rparr> ''id-1''
              new_event_bus))) = 1
   \<and> invoked (bus_emit ''syslog''
      (snd (on ''sys:*'' \<lparr>cb_name = ''h'', is_coroutine = False, cb_raises = False\<rparr> ''id-1''
              new_event_bus))) = []"
  using sys_wildcard_subscription [of "''id-1''"
      "\<lparr>cb_name = ''h'', is_coroutine = False, cb_raises = False\<rparr>" new_event_bus]
  by (simp add: bus_emit_def Let_def get_subscribers_for_event_def on_def subs_of_def
        new_event_bus_def fnmatch_def)

section \<open>Telemetry: metric buffers\<close>

lemma buffer_of_record_metric:
  "buffer_of (record_metric name v s) key =
     (if key = name then buffer_of s name @ [v] else buffer_of s key)"
  by (simp add: record_metric_def buffer_of_def update_conv)

lemma buffer_of_fold_record:
  "buffer_of (fold (record_metric name) vs s) name = buffer_of s name @ vs"
  by (induction vs arbitrary: s) (simp_all add: buffer_of_record_metric)

lemma buffer_of_new: "buffer_of (new_collector cfg) name = []"
  by (simp add: buffer_of_def new_collector_def)

lemma buffer_of_clean:
  "buffer_of (clean_old_data now s) name
     = drop (length (buffer_of s name) - 1000) (buffer_of s name)"
proof -
  have "map_of (map (\<lambda>(n, vs). (n, if length vs > 1000 then drop (length vs - 1000) vs else vs))
                    al) name
        = map_option (\<lambda>vs. if length vs > 1000 then drop (length vs - 1000) vs else vs)
            (map_of al name)" for al :: "(string \<times> real list) list"
    by (induction al) auto
  then show ?thesis
    by (cases "map_of (metrics_buffer s) name") (simp_all add: clean_old_data_def buffer_of_def)
qed

text \<open>
  C8 as stated fails: \<^verbatim>\<open>_record_metric\<close> appends and never drops, so after 1001 samples
  of one metric its buffer holds 1001 values.
\<close>

theorem buffer_exceeds_cap_counterexample:
  "\<not> length (buffer_of (fold (record_metric ''m'') (replicate 1001 0) (new_collector [])) ''m'')
       \<le> 1000"
  by (simp add: buffer_of_fold_record buffer_of_new del: fold_replicate)

text \<open>
  C8 as amended. After a maintenance pass every metric's buffer holds at most 1000
  values, namely the most recent ones of the buffer before the pass (the oldest are
  dropped first). Recording a metric appends the sample to that metric's buffer and
  leaves the other buffers as they are; it drops nothing.
\<close>

theorem buffers_capped_by_maintenance:
  "(\<forall>entry \<in> set (metrics_buffer (clean_old_data now s)). length (snd entry) \<le> 1000)
   \<and> buffer_of (clean_old_data now s) name
       = drop (length (buffer_of s name) - 1000) (buffer_of s name)
   \<and> buffer_of (record_metric name v s) name = buffer_of s name @ [v]
   \<and> (other \<noteq> name \<longrightarrow> buffer_of (record_metric name v s) other = buffer_of s other)"
proof -
  have "\<forall>entry \<in> set (metrics_buffer (clean_old_data now s)). length (snd entry) \<le> 1000"
    by (auto simp: clean_old_data_def)
  then show ?thesis
    by (simp add: buffer_of_clean buffer_of_record_metric)
qed

theorem buffers_capped_by_maintenance_witness:
  "length (buffer_of (fold (record_metric ''m'') (replicate 1001 0) (new_collector [])) ''m'') = 1001
   \<and> length (buffer_of (clean_old_data 0
        (fold (record_metric ''m'') (replicate 1001 0) (new_collector []))) ''m'') = 1000"
  using buffers_capped_by_maintenance [of 0
      "fold (record_metric ''m'') (replicate 1001 0) (new_collector [])" "''m''"]
  by (simp add: buffer_of_fold_record buffer_of_new del: fold_replicate)

section \<open>Telemetry: alerts\<close>

lemma thresholds_new: "alert_thresholds (new_collector []) = default_thresholds"
  by (simp add: new_collector_def load_config_def default_thresholds_def)

lemma check_one_no_match:
  "\<not> match_metric_pattern metric_name (fst entry) \<Longrightarrow>
   check_one_threshold fmt metric_name st now entry s = s"
  by (simp add: check_one_threshold_def)

lemma cpu_matches:
  "match_metric_pattern ''cpu.percent'' ''cpu.percent''"
  "\<not> match_metric_pattern ''cpu.percent'' ''memory.percent''"
  "\<not> match_metric_pattern ''cpu.percent'' ''latency.interaction''"
  "\<not> match_metric_pattern ''cpu.percent'' ''error.rate''"
  by (simp_all add: match_metric_pattern_def startswith_def endswith_def)

lemma check_cpu_defaults:
  "alert_thresholds s = default_thresholds \<Longrightarrow>
   check_thresholds fmt ''cpu.percent'' st now s =
     check_one_threshold fmt ''cpu.percent'' st now
       (''cpu.percent'', [(''warning'', 70), (''critical'', 90)]) s"
  by (simp add: check_thresholds_def default_thresholds_def check_one_no_match cpu_matches)

lemma check_one_cpu_critical:
  "90 \<le> m \<Longrightarrow>
   check_one_threshold fmt ''cpu.percent'' [(''mean'', m)] now
       (''cpu.percent'', [(''warning'', 70), (''critical'', 90)]) s
   = emit_alert fmt ''cpu.percent'' m 90 CRITICAL [(''mean'', m)] now s"
  by (simp add: check_one_threshold_def cpu_matches)

text \<open>An alert of the severity of the active alert of its key, less than 300 seconds
  after it, is suppressed whatever its value: the first test of \<^verbatim>\<open>_emit_alert\<close> returns
  before the second one compares the values.\<close>

lemma emit_alert_same_severity_suppressed:
  assumes "map_of (active_alerts s) (alert_type_value (alert_type_for metric_name) @ '':'' @ metric_name)
             = Some last_alert"
    and "now - alert_timestamp last_alert < 300"
    and "severity last_alert = severity_value sev"
  shows "emit_alert fmt metric_name v thr sev st now s = s"
  using assms by (simp add: emit_alert_def Let_def)

lemma emit_alert_first:
  assumes "map_of (active_alerts s) (alert_type_value (alert_type_for metric_name) @ '':'' @ metric_name)
             = None"
  shows "emit_alert fmt metric_name v thr sev st now s =
     (let ty = alert_type_for metric_name;
          alert_key = alert_type_value ty @ '':'' @ metric_name;
          alert_data = \<lparr>alert_type = alert_type_value ty, severity = severity_value sev,
                        metric = metric_name, alert_value = v, threshold = thr,
                        message = format_alert_message fmt ty metric_name v thr sev,
                        alert_timestamp = now,
                        alert_stats = (if st = [] then None else Some st)\<rparr>
      in s\<lparr>active_alerts := AList.update alert_key alert_data (active_alerts s),
           stored := AList.update (''alerts.'' @ str_int (py_int now) @ ''-'' @ alert_key)
                       (AlertV alert_data) (stored s),
           sent := sent s @ [(''system:alert'', AlertV alert_data)]\<rparr>)"
  using assms by (simp add: emit_alert_def Let_def)

lemma cpu_type: "alert_type_for ''cpu.percent'' = HIGH_CPU"
  by (simp add: alert_type_for_def startswith_def)

text \<open>
  C5, at a concrete input. With the default threshold of \<open>cpu.percent\<close> (warning 70,
  critical 90) and a mean of 95 the threshold check at time 1000 emits one CRITICAL
  alert with the value 95, and the same check at time 1100 emits nothing more. A check
  at time 1100 with a mean of 150, which is more than one and a half times 95, emits
  nothing either: the collector is left as it was.
\<close>

theorem grown_value_still_suppressed:
  "let s1 = check_thresholds fmt ''cpu.percent'' [(''mean'', 95)] 1000 (new_collector []);
       s2 = check_thresholds fmt ''cpu.percent'' [(''mean'', 95)] 1100 s1;
       s3 = check_thresholds fmt ''cpu.percent'' [(''mean'', 150)] 1100 s1
   in sent s1 = [(''system:alert'',
                  AlertV \<lparr>alert_type = ''high_cpu'', severity = ''critical'',
                          metric = ''cpu.percent'', alert_value = 95, threshold = 90,
                          message = format_alert_message fmt HIGH_CPU ''cpu.percent'' 95 90 CRITICAL,
                          alert_timestamp = 1000, alert_stats = Some [(''mean'', 95)]\<rparr>)]
      \<and> s2 = s1
      \<and> (150 :: real) \<ge> 95 * (3 / 2)
      \<and> s3 = s1"
proof -
  let ?a = "\<lparr>alert_type = ''high_cpu'', severity = ''critical'',
             metric = ''cpu.percent'', alert_value = 95, threshold = 90,
             message = format_alert_message fmt HIGH_CPU ''cpu.percent'' 95 90 CRITICAL,
             alert_timestamp = 1000, alert_stats = Some [(''mean'', 95)]\<rparr>"
  define s1 where "s1 = check_thresholds fmt ''cpu.percent'' [(''mean'', 95)] 1000 (new_collector [])"
  have none: "map_of (active_alerts (new_collector []))
                (alert_type_value (alert_type_for ''cpu.percent'') @ '':'' @ ''cpu.percent'') = None"
    by (simp add: new_collector_def)
  have s1_eq: "s1 = (new_collector [])\<lparr>
      active_alerts := [(''high_cpu:cpu.percent'', ?a)],
      stored := [(''alerts.'' @ str_int (py_int 1000) @ ''-'' @ ''high_cpu:cpu.percent'', AlertV ?a)],
      sent := [(''system:alert'', AlertV ?a)]\<rparr>"
    unfolding s1_def
    by (simp add: check_cpu_defaults [OF thresholds_new] check_one_cpu_critical
          emit_alert_first [OF none] cpu_type Let_def)
      (simp add: new_collector_def)
  have th1: "alert_thresholds s1 = default_thresholds"
    by (simp add: s1_eq thresholds_new)
  have act: "map_of (active_alerts s1)
                (alert_type_value (alert_type_for ''cpu.percent'') @ '':'' @ ''cpu.percent'') = Some ?a"
    by (simp add: s1_eq cpu_type)
  have again: "emit_alert fmt ''cpu.percent'' v 90 CRITICAL st 1100 s1 = s1" for v st
    by (rule emit_alert_same_severity_suppressed [OF act]) simp_all
  have s2: "check_thresholds fmt ''cpu.percent'' [(''mean'', 95)] 1100 s1 = s1"
    by (simp add: check_cpu_defaults [OF th1] check_one_cpu_critical again)
  have s3: "check_thresholds fmt ''cpu.percent'' [(''mean'', 150)] 1100 s1 = s1"
    by (simp add: check_cpu_defaults [OF th1] check_one_cpu_critical again)
  have sent1: "sent s1 = [(''system:alert'', AlertV ?a)]"
    by (simp add: s1_eq)
  show ?thesis
    unfolding Let_def s1_def [symmetric] s2 s3 sent1 by simp
qed

section \<open>Telemetry: anomalies\<close>

lemma metrics_buffer_record_first:
  "metrics_buffer s = [] \<Longrightarrow>
   metrics_buffer (fold (record_metric name) (v # vs) s) = [(name, v # vs)]"
proof -
  have step: "metrics_buffer (fold (record_metric name) vs s') = [(name, xs @ vs)]"
    if "metrics_buffer s' = [(name, xs)]" for s' xs
    using that
    by (induction vs arbitrary: s' xs) (simp_all add: record_metric_def buffer_of_def)
  assume "metrics_buffer s = []"
  then have "metrics_buffer (record_metric name v s) = [(name, [v])]"
    by (simp add: record_metric_def buffer_of_def)
  from step [OF this] show ?thesis by simp
qed

lemma record_keeps_models:
  "anomaly_models (fold (record_metric name) vs s) = anomaly_models s"
  "anomalies (fold (record_metric name) vs s) = anomalies s"
  by (induction vs arbitrary: s) (simp_all add: record_metric_def)

lemma emit_alert_keeps:
  "anomalies (emit_alert fmt m v thr sev st now s) = anomalies s"
  "anomaly_models (emit_alert fmt m v thr sev st now s) = anomaly_models s"
  by (simp_all add: emit_alert_def Let_def)

lemma flag_value_normal:
  "\<not> fst (check_anomaly v model) \<Longrightarrow> flag_value fmt m model now v s = s"
  by (simp add: flag_value_def Let_def)

lemma flag_value_anomalous:
  "fst (check_anomaly v model) \<Longrightarrow>
   anomalies (flag_value fmt m model now v s) =
     anomalies s @ [\<lparr>an_metric = m, an_value = v, an_score = snd (check_anomaly v model),
                     an_timestamp = now, an_threshold = model_threshold model,
                     an_model_mean = model_mean model, an_model_stddev = model_stddev model\<rparr>]
   \<and> anomaly_models (flag_value fmt m model now v s) = anomaly_models s"
  by (simp add: flag_value_def Let_def emit_alert_keeps)

lemma fold_fixed: "(\<And>s. f x s = s) \<Longrightarrow> fold f (replicate n x) s = s"
  by (induction n) simp_all

lemma sqrt_32670_bounds: "11 \<le> sqrt 32670" "sqrt 32670 < 319"
proof -
  show "11 \<le> sqrt 32670" by (rule real_le_rsqrt) simp
  show "sqrt 32670 < 319" by (rule real_less_lsqrt) simp_all
qed

lemma samples_mean: "mean (replicate 29 10 @ [1000]) = 43"
  by (simp add: mean_def sum_list_replicate)

lemma samples_stdev: "stdev (replicate 29 10 @ [1000]) = sqrt 32670"
  by (simp add: stdev_def samples_mean sum_list_replicate)

text \<open>
  C7. After 29 samples of value 10 and one sample of value 1000 of the metric
  \<open>svc.duration\<close> have been recorded on a new collector, one pass of the anomaly
  detection builds the model of the metric from these 30 samples (mean 43, standard
  deviation \<open>sqrt 32670\<close>) and records exactly one anomaly: the sample of value 1000,
  with a z-score above 3. No sample of value 10 is flagged.
\<close>

theorem spike_is_the_only_anomaly:
  "let s0 = fold (record_metric ''svc.duration'') (replicate 29 10 @ [1000]) (new_collector []);
       s1 = detect_anomalies fmt now s0
   in anomaly_models s1 ''svc.duration''
        = Some \<lparr>model_mean = 43, model_stddev = sqrt 32670,
                model_threshold = 3 * sqrt 32670, last_update = now\<rparr>
      \<and> anomalies s1
          = [\<lparr>an_metric = ''svc.duration'', an_value = 1000, an_score = 957 / sqrt 32670,
              an_timestamp = now, an_threshold = 3 * sqrt 32670,
              an_model_mean = 43, an_model_stddev = sqrt 32670\<rparr>]
      \<and> 957 / sqrt 32670 > 3"
proof -
  let ?vs = "replicate 29 10 @ [1000 :: real]"
  let ?model = "\<lparr>model_mean = 43, model_stddev = sqrt 32670,
                 model_threshold = 3 * sqrt 32670, last_update = now\<rparr>"
  let ?flag = "flag_value fmt ''svc.duration'' ?model now"
  define filled where "filled = fold (record_metric ''svc.duration'') ?vs (new_collector [])"
  define primed
    where "primed = filled\<lparr>anomaly_models := (anomaly_models filled)(''svc.duration'' \<mapsto> ?model)\<rparr>"
  have pos: "0 < sqrt 32670" using sqrt_32670_bounds(1) by simp
  have high: "957 / sqrt 32670 > 3"
    using sqrt_32670_bounds(2) pos by (simp add: pos_less_divide_eq)
  have low: "\<not> 33 / sqrt 32670 > 3"
    using sqrt_32670_bounds(1) pos by (simp add: pos_less_divide_eq)
  have ten: "\<not> fst (check_anomaly 10 ?model)"
    using low pos by (simp add: check_anomaly_def Let_def)
  have spike: "check_anomaly 1000 ?model = (True, 957 / sqrt 32670)"
    using high pos by (simp add: check_anomaly_def Let_def)
  have "replicate 29 (10 :: real) = 10 # replicate 28 10" by (simp add: numeral_eq_Suc)
  then have buf: "metrics_buffer filled = [(''svc.duration'', ?vs)]"
    unfolding filled_def
    using metrics_buffer_record_first [of "new_collector []" "''svc.duration''" 10
        "replicate 28 10 @ [1000]"]
    by (simp add: new_collector_def del: fold_replicate)
  have models0: "anomaly_models filled = Map.empty" "anomalies filled = []"
    unfolding filled_def
    by (simp_all only: record_keeps_models) (simp_all add: new_collector_def)
  have init: "initialize_anomaly_model ?vs now = ?model"
    by (simp add: initialize_anomaly_model_def Let_def samples_mean samples_stdev)
  have recent: "drop (length ?vs - 10) ?vs = replicate 9 10 @ [1000]"
    by simp
  have tens: "fold ?flag (replicate 9 10) st = st" for st
    by (rule fold_fixed) (rule flag_value_normal [OF ten])
  have skip: "fold ?flag (replicate 9 10 @ [1000]) st = ?flag 1000 st" for st
    by (simp add: tens del: fold_replicate)
  have run: "detect_anomalies fmt now filled = ?flag 1000 primed"
  proof -
    have "detect_anomalies fmt now filled = detect_metric fmt now (''svc.duration'', ?vs) filled"
      by (simp only: detect_anomalies_def buf fold_simps)
    also have "\<dots> = fold ?flag (replicate 9 10 @ [1000]) primed"
      unfolding detect_metric_def Let_def fst_conv snd_conv recent
      by (simp add: models0 init primed_def del: fold_replicate fold_append)
    also have "\<dots> = ?flag 1000 primed"
      by (rule skip)
    finally show ?thesis .
  qed
  have flagged: "fst (check_anomaly 1000 ?model)" by (simp add: spike)
  have primed_fields: "anomalies primed = []"
    "anomaly_models primed ''svc.duration'' = Some ?model"
    by (simp_all add: primed_def models0)
  from flag_value_anomalous [OF flagged, of fmt "''svc.duration''" now primed]
  show ?thesis
    unfolding Let_def filled_def [symmetric] run
    by (simp add: spike primed_fields high)
qed

end
